theory Spec2Isabelle
  imports Main
begin

section \<open>JavaScript values the code handles\<close>

text \<open>
  The request body, the process environment and the fields of a stored document hold
  either a string or \<open>undefined\<close>. \<open>None\<close> stands for \<open>undefined\<close>. A string
  is its UTF-8 bytes.
\<close>

type_synonym js_string = "string option"

text \<open>The test \<open>if (v)\<close> / \<open>!v\<close> / \<open>v || w\<close>: \<open>undefined\<close> and \<open>""\<close> are falsy.\<close>

definition truthy :: "js_string \<Rightarrow> bool" where
  "truthy v = (case v of None \<Rightarrow> False | Some s \<Rightarrow> s \<noteq> [])"

text \<open>\<open>${v}\<close> in a template literal and \<open>"..." + v\<close>.\<close>

definition interp :: "js_string \<Rightarrow> string" where
  "interp v = (case v of None \<Rightarrow> ''undefined'' | Some s \<Rightarrow> s)"

text \<open>
  An error object as the code reads it: \<open>error.code\<close>, \<open>error.responseCode\<close>,
  \<open>error.message\<close>.
\<close>

record js_error =
  err_code :: js_string
  err_responseCode :: "int option"
  err_message :: js_string

text \<open>\<open>new Error(msg)\<close>\<close>

definition Error :: "js_string \<Rightarrow> js_error" where
  "Error msg = \<lparr>err_code = None, err_responseCode = None, err_message = msg\<rparr>"

text \<open>\<open>String.prototype.includes\<close>, used to state what a rendered text contains.\<close>

fun starts_with :: "string \<Rightarrow> string \<Rightarrow> bool" where
  "starts_with s [] = True"
| "starts_with [] (p # ps) = False"
| "starts_with (c # cs) (p # ps) = (c = p \<and> starts_with cs ps)"

fun includes_str :: "string \<Rightarrow> string \<Rightarrow> bool" where
  "includes_str [] p = (p = [])"
| "includes_str (c # cs) p = (starts_with (c # cs) p \<or> includes_str cs p)"

section \<open>Dates\<close>

text \<open>
  \<open>new Date(v)\<close> is an instant (milliseconds since the epoch, UTC) or Invalid Date.
\<close>

datatype js_date = Invalid_Date | Time_Value int

datatype js_locale = en_US | en_GB | de_DE

text \<open>Decimal digits of a number, as a template literal prints it.\<close>

fun digits :: "nat \<Rightarrow> string" where
  "digits n = (if n < 10 then [''0123456789'' ! n]
               else digits (n div 10) @ [''0123456789'' ! (n mod 10)])"

definition number_str :: "int \<Rightarrow> string" where
  "number_str i = (if i < 0 then CHR ''-'' # digits (nat (- i)) else digits (nat i))"

definition two_digits :: "nat \<Rightarrow> string" where
  "two_digits n = (if n < 10 then CHR ''0'' # digits n else digits n)"

definition is_digit :: "char \<Rightarrow> bool" where
  "is_digit c = (c \<in> set ''0123456789'')"

definition digit_value :: "char \<Rightarrow> nat" where
  "digit_value c = of_char c - 48"

definition decimal :: "string \<Rightarrow> nat" where
  "decimal s = foldl (\<lambda>n c. 10 * n + digit_value c) 0 s"

text \<open>Days since 1970-01-01 of a date of the proleptic Gregorian calendar, and back.\<close>

definition days_from_civil :: "int \<Rightarrow> int \<Rightarrow> int \<Rightarrow> int" where
  "days_from_civil y m d =
     (let y' = (if m \<le> 2 then y - 1 else y);
          era = y' div 400;
          yoe = y' - era * 400;
          doy = (153 * (if m > 2 then m - 3 else m + 9) + 2) div 5 + d - 1;
          doe = yoe * 365 + yoe div 4 - yoe div 100 + doy
      in era * 146097 + doe - 719468)"

definition civil_from_days :: "int \<Rightarrow> int \<times> int \<times> int" where
  "civil_from_days z =
     (let z' = z + 719468;
          era = z' div 146097;
          doe = z' - era * 146097;
          yoe = (doe - doe div 1460 + doe div 36524 - doe div 146096) div 365;
          doy = doe - (365 * yoe + yoe div 4 - yoe div 100);
          mp = (5 * doy + 2) div 153;
          d = doy - (153 * mp + 2) div 5 + 1;
          m = (if mp < 10 then mp + 3 else mp - 9);
          y = yoe + era * 400
      in (if m \<le> 2 then y + 1 else y, m, d))"

definition is_leap_year :: "int \<Rightarrow> bool" where
  "is_leap_year y = (y mod 4 = 0 \<and> (y mod 400 = 0 \<or> y mod 100 \<noteq> 0))"

definition days_in_month :: "int \<Rightarrow> int \<Rightarrow> int" where
  "days_in_month y m =
     (if m = 2 then (if is_leap_year y then 29 else 28)
      else if m = 4 \<or> m = 6 \<or> m = 9 \<or> m = 11 then 30 else 31)"

text \<open>
  The date-only form \<open>YYYY-MM-DD\<close> of the ECMAScript date-time string format, which
  an HTML date input submits: year 0001 to 9999, a month and a day of that month.
\<close>

definition parse_date_only :: "string \<Rightarrow> (int \<times> int \<times> int) option" where
  "parse_date_only s =
     (if length s = 10 \<and> s ! 4 = CHR ''-'' \<and> s ! 7 = CHR ''-''
         \<and> list_all is_digit (take 4 s) \<and> list_all is_digit (take 2 (drop 5 s))
         \<and> list_all is_digit (drop 8 s)
      then (let y = int (decimal (take 4 s)); m = int (decimal (take 2 (drop 5 s)));
                d = int (decimal (drop 8 s))
            in if 1 \<le> y \<and> 1 \<le> m \<and> m \<le> 12 \<and> 1 \<le> d \<and> d \<le> days_in_month y m
               then Some (y, m, d) else None)
      else None)"

section \<open>The environment of a request\<close>

text \<open>
  What the code reads from outside itself: the process environment
  (\<open>process.env.EMAIL_USER\<close>, \<open>process.env.EMAIL_PASS\<close>), how the mail relay answers
  \<open>transporter.verify()\<close> and \<open>transporter.sendMail(mailOptions)\<close>, whether the
  database driver rejects a query or a write, the clock and the locale settings of the
  server.
\<close>

record mail =
  mail_from :: string
  mail_to :: string
  subject :: string
  html :: string
  text_body :: js_string

text \<open>
  The stored appointment document, with the fields the code under \<open>src/\<close> reads or
  writes (\<open>models/appointment.js\<close> is not part of the sources; the fields are kept as
  the strings they were given as).
\<close>

record appointment =
  appt_id :: string
  doctorid :: js_string
  patientName :: js_string
  patientEmail :: js_string
  description :: js_string
  status :: js_string
  timeSlot :: js_string
  appointmentDate :: js_string
  confirmationMessage :: js_string

text \<open>The doctor document of the schema \<open>doctorSchema\<close>.\<close>

record doctor =
  doctor_name :: string
  doctor_email :: string
  doctor_passwordHash :: string
  doctor_phone :: js_string
  doctor_gender :: js_string
  doctor_status :: string
  doctor_idproof :: js_string
  doctor_profilePicture :: js_string
  doctor_doctorid :: js_string
  doctor_specialization :: js_string
  doctor_location :: js_string

record env =
  EMAIL_USER :: js_string
  EMAIL_PASS :: js_string
  transporter_verify :: "js_error option"
  transporter_sendMail :: "mail \<Rightarrow> js_error + string"
  findOne_rejects :: "string \<Rightarrow> string \<Rightarrow> js_error option"
  save_rejects :: "appointment \<Rightarrow> js_error option"
  current_year :: int
  timezone_offset :: int
  default_locale :: js_locale
  host_date_parse :: "string \<Rightarrow> js_date"

text \<open>
  \<open>transporter_verify\<close> is the error \<open>verify()\<close> rejects with, if it does;
  \<open>transporter_sendMail\<close> is the rejection of \<open>sendMail\<close> or the \<open>messageId\<close> of
  the info object nodemailer resolves with; \<open>findOne_rejects\<close> and \<open>save_rejects\<close>
  are the errors the database driver throws, if it does; \<open>current_year\<close> is
  \<open>new Date().getFullYear()\<close>; \<open>timezone_offset\<close> is the server's offset from UTC
  in minutes (a fixed-offset zone); \<open>host_date_parse\<close> is what the JavaScript engine
  makes of a date string that is not of the date-only form (the language leaves it to
  the implementation).
\<close>

text \<open>\<open>new Date(v)\<close>: \<open>undefined\<close> gives Invalid Date; a date-only string is UTC midnight.\<close>

definition new_Date :: "env \<Rightarrow> js_string \<Rightarrow> js_date" where
  "new_Date e v =
     (case v of
        None \<Rightarrow> Invalid_Date
      | Some s \<Rightarrow>
          (case parse_date_only s of
             Some (y, m, d) \<Rightarrow> Time_Value (days_from_civil y m d * 86400000)
           | None \<Rightarrow> host_date_parse e s))"

text \<open>The local calendar day of an instant, and its day of the week (0 is Sunday).\<close>

definition local_day :: "env \<Rightarrow> int \<Rightarrow> int" where
  "local_day e t = (t + timezone_offset e * 60000) div 86400000"

definition week_day :: "int \<Rightarrow> nat" where
  "week_day day = nat ((day + 4) mod 7)"

definition weekday_names :: "string list" where
  "weekday_names = [''Sunday'', ''Monday'', ''Tuesday'', ''Wednesday'', ''Thursday'',
     ''Friday'', ''Saturday'']"

definition month_names :: "string list" where
  "month_names = [''January'', ''February'', ''March'', ''April'', ''May'', ''June'',
     ''July'', ''August'', ''September'', ''October'', ''November'', ''December'']"

text \<open>The year as the pattern field \<open>y\<close> prints it: the year of the era.\<close>

definition year_str :: "int \<Rightarrow> string" where
  "year_str y = (if y < 1 then digits (nat (1 - y)) else digits (nat y))"

text \<open>
  \<open>d.toLocaleDateString('en-US', {weekday: 'long', year: 'numeric', month: 'long',
  day: 'numeric'})\<close>, as in \<open>Saturday, June 1, 2024\<close>.
\<close>

definition toLocaleDateString_long :: "env \<Rightarrow> js_date \<Rightarrow> string" where
  "toLocaleDateString_long e d =
     (case d of
        Invalid_Date \<Rightarrow> ''Invalid Date''
      | Time_Value t \<Rightarrow>
          (case civil_from_days (local_day e t) of
             (y, m, dd) \<Rightarrow>
               weekday_names ! week_day (local_day e t) @ '', '' @ month_names ! nat (m - 1)
                 @ '' '' @ digits (nat dd) @ '', '' @ year_str y))"

text \<open>
  \<open>d.toLocaleDateString()\<close>: the server's default locale and the default fields (year,
  month and day, all numeric), as in \<open>6/1/2024\<close>, \<open>01/06/2024\<close> and \<open>1.6.2024\<close>.
\<close>

definition toLocaleDateString_default :: "env \<Rightarrow> js_date \<Rightarrow> string" where
  "toLocaleDateString_default e d =
     (case d of
        Invalid_Date \<Rightarrow> ''Invalid Date''
      | Time_Value t \<Rightarrow>
          (case civil_from_days (local_day e t) of
             (y, m, dd) \<Rightarrow>
               (case default_locale e of
                  en_US \<Rightarrow> digits (nat m) @ ''/'' @ digits (nat dd) @ ''/'' @ year_str y
                | en_GB \<Rightarrow> two_digits (nat dd) @ ''/'' @ two_digits (nat m) @ ''/'' @ year_str y
                | de_DE \<Rightarrow> digits (nat dd) @ ''.'' @ digits (nat m) @ ''.'' @ year_str y)))"

text \<open>
  The numeric form of a calendar date (year, month, day) in a locale: what
  \<open>toLocaleDateString()\<close> prints for an instant whose local day is that date.
\<close>

definition numeric_date :: "js_locale \<Rightarrow> int \<Rightarrow> int \<Rightarrow> int \<Rightarrow> string" where
  "numeric_date l y m d =
     (case l of
        en_US \<Rightarrow> digits (nat m) @ ''/'' @ digits (nat d) @ ''/'' @ year_str y
      | en_GB \<Rightarrow> two_digits (nat d) @ ''/'' @ two_digits (nat m) @ ''/'' @ year_str y
      | de_DE \<Rightarrow> digits (nat d) @ ''.'' @ digits (nat m) @ ''.'' @ year_str y)"

section \<open>The email service (\<open>services/emailService.js\<close>)\<close>

record config_result =
  valid :: bool
  config_error :: js_string

definition validateEmailConfig :: "env \<Rightarrow> config_result" where
  "validateEmailConfig e =
     (if \<not> truthy (EMAIL_USER e)
      then \<lparr>valid = False, config_error = Some ''EMAIL_USER is not set in environment variables''\<rparr>
      else if \<not> truthy (EMAIL_PASS e)
      then \<lparr>valid = False, config_error = Some ''EMAIL_PASS is not set in environment variables''\<rparr>
      else \<lparr>valid = True, config_error = None\<rparr>)"

text \<open>
  \<open>createTransporter\<close> throws when the configuration is not valid; building the
  transport object itself opens no connection.
\<close>

definition createTransporter :: "env \<Rightarrow> js_error + unit" where
  "createTransporter e =
     (let config = validateEmailConfig e
      in if \<not> valid config then Inl (Error (config_error config)) else Inr ())"

text \<open>What reaches the network: \<open>transporter.verify()\<close> and \<open>transporter.sendMail\<close>.\<close>

datatype net_action = Verify | SendMail mail

text \<open>The object the two send functions return.\<close>

record send_result =
  success :: bool
  messageId :: js_string
  error :: js_string
  details :: js_string

text \<open>
  An async function settles with a thrown error (\<open>Inl\<close>) or a returned value
  (\<open>Inr\<close>), having done some network actions on the way.
\<close>

type_synonym 'a settled = "(js_error + 'a) \<times> net_action list"

subsection \<open>\<open>sendOTPEmail\<close>\<close>

definition otp_html :: "env \<Rightarrow> string \<Rightarrow> string" where
  "otp_html e otp =
       ''\<newline>'' @
       ''        <div style=\"font-family: Arial, sans-serif; max-width: 600px; margin: 0 auto; padding: 20px; background-color: #f9f9f9;\">\<newline>'' @
       ''          <div style=\"background-color: #ffffff; padding: 30px; border-radius: 10px; box-shadow: 0 2px 4px rgba(0,0,0,0.1);\">\<newline>'' @
       ''            <h2 style=\"color: #3B82F6; text-align: center; margin-bottom: 20px;\">Email Verification</h2>\<newline>'' @
       ''            <p style=\"color: #333333; font-size: 16px; line-height: 1.6;\">\<newline>'' @
       ''              Hello,\<newline>'' @
       ''            </p>\<newline>'' @
       ''            <p style=\"color: #333333; font-size: 16px; line-height: 1.6;\">\<newline>'' @
       ''              Thank you for registering with our Healthcare Portal. Please use the OTP below to verify your email address:\<newline>'' @
       ''            </p>\<newline>'' @
       ''            <div style=\"background-color: #3B82F6; color: #ffffff; padding: 20px; border-radius: 8px; text-align: center; margin: 30px 0;\">\<newline>'' @
       ''              <h1 style=\"margin: 0; font-size: 32px; letter-spacing: 5px;\">'' @
       otp @
       ''</h1>\<newline>'' @
       ''            </div>\<newline>'' @
       ''            <p style=\"color: #666666; font-size: 14px; line-height: 1.6;\">\<newline>'' @
       ''              This OTP is valid for 10 minutes. If you didn'' @
       [CHR 0x27] @
       ''t request this OTP, please ignore this email.\<newline>'' @
       ''            </p>\<newline>'' @
       ''            <hr style=\"border: none; border-top: 1px solid #e0e0e0; margin: 30px 0;\">\<newline>'' @
       ''            <p style=\"color: #999999; font-size: 12px; text-align: center; margin: 0;\">\<newline>'' @
       ''              '' @
       [CHR 0xC2, CHR 0xA9] @
       '' '' @
       number_str (current_year e) @
       '' Healthcare Portal. All rights reserved.\<newline>'' @
       ''            </p>\<newline>'' @
       ''          </div>\<newline>'' @
       ''        </div>\<newline>'' @
       ''      ''"
definition otp_mailOptions :: "env \<Rightarrow> string \<Rightarrow> string \<Rightarrow> mail" where
  "otp_mailOptions e email otp =
     \<lparr>mail_from = ''\"Medicare\" <'' @ interp (EMAIL_USER e) @ ''>'',
      mail_to = email,
      subject = ''Email Verification OTP - Medicare'',
      html = otp_html e otp,
      text_body = None\<rparr>"

definition sendOTPEmail_try :: "env \<Rightarrow> string \<Rightarrow> string \<Rightarrow> send_result settled" where
  "sendOTPEmail_try e email otp =
     (let config = validateEmailConfig e
      in if \<not> valid config
         then (Inr \<lparr>success = False, messageId = None, error = config_error config,
                     details = None\<rparr>, [])
         else
           (case createTransporter e of
              Inl err \<Rightarrow> (Inl err, [])
            | Inr transporter \<Rightarrow>
                (case transporter_verify e of
                   Some err \<Rightarrow> (Inl err, [Verify])
                 | None \<Rightarrow>
                     (let mailOptions = otp_mailOptions e email otp
                      in (case transporter_sendMail e mailOptions of
                            Inl err \<Rightarrow> (Inl err, [Verify, SendMail mailOptions])
                          | Inr mid \<Rightarrow>
                              (Inr \<lparr>success = True, messageId = Some mid, error = None,
                                     details = None\<rparr>,
                               [Verify, SendMail mailOptions]))))))"

definition sendOTPEmail_catch :: "js_error \<Rightarrow> send_result" where
  "sendOTPEmail_catch err =
     (let errorMessage =
            (if err_code err = Some ''EAUTH''
             then ''Email authentication failed. Please check your EMAIL_USER and EMAIL_PASS in .env file. Make sure you'' @ [CHR 0x27] @ ''re using a Gmail App Password.''
             else if err_code err = Some ''ECONNECTION'' \<or> err_code err = Some ''ETIMEDOUT''
             then ''Connection error. Please check your internet connection and try again.''
             else if err_responseCode err = Some 535
             then ''Authentication failed. Please verify your Gmail App Password is correct.''
             else if truthy (err_message err) then interp (err_message err)
             else ''Failed to send OTP email.'')
      in \<lparr>success = False, messageId = None, error = Some errorMessage,
           details = err_message err\<rparr>)"

definition sendOTPEmail :: "env \<Rightarrow> string \<Rightarrow> string \<Rightarrow> send_result settled" where
  "sendOTPEmail e email otp =
     (case sendOTPEmail_try e email otp of
        (Inl err, net) \<Rightarrow> (Inr (sendOTPEmail_catch err), net)
      | (Inr r, net) \<Rightarrow> (Inr r, net))"

subsection \<open>\<open>sendAppointmentConfirmationEmail\<close>\<close>

definition confirmation_html :: "env \<Rightarrow> appointment \<Rightarrow> doctor option \<Rightarrow> string \<Rightarrow> string" where
  "confirmation_html e a doctorDetails formattedDate =
       ''\<newline>'' @
       ''        <div style=\"font-family: Arial, sans-serif; max-width: 600px; margin: 0 auto; padding: 20px; background-color: #f9f9f9;\">\<newline>'' @
       ''          <div style=\"background: linear-gradient(135deg, #667eea 0%, #764ba2 100%); color: white; padding: 30px; text-align: center; border-radius: 10px 10px 0 0;\">\<newline>'' @
       ''            <h1 style=\"margin: 0; font-size: 28px;\">Appointment Confirmed! '' @
       [CHR 0xF0, CHR 0x9F, CHR 0x8E, CHR 0x89] @
       ''</h1>\<newline>'' @
       ''            <p style=\"margin: 10px 0 0 0; font-size: 16px; opacity: 0.9;\">Your healthcare appointment has been scheduled</p>\<newline>'' @
       ''          </div>\<newline>'' @
       ''          \<newline>'' @
       ''          <div style=\"background-color: #ffffff; padding: 30px; border-radius: 0 0 10px 10px; box-shadow: 0 2px 4px rgba(0,0,0,0.1);\">\<newline>'' @
       ''            <h2 style=\"color: #333333; margin-bottom: 20px;\">Dear '' @
       interp (patientName a) @
       '',</h2>\<newline>'' @
       ''            <p style=\"color: #333333; font-size: 16px; line-height: 1.6;\">\<newline>'' @
       ''              We'' @
       [CHR 0x27] @
       ''re pleased to inform you that your appointment has been confirmed. Here are your appointment details:\<newline>'' @
       ''            </p>\<newline>'' @
       ''            \<newline>'' @
       ''            <div style=\"background-color: #f8f9fa; padding: 20px; border-radius: 8px; margin: 20px 0; border-left: 4px solid #667eea;\">\<newline>'' @
       ''              <h3 style=\"color: #333333; margin-top: 0;\">Appointment Details</h3>\<newline>'' @
       ''              <p style=\"color: #333333; margin: 8px 0;\"><strong>Date:</strong> '' @
       formattedDate @
       ''</p>\<newline>'' @
       ''              <p style=\"color: #333333; margin: 8px 0;\"><strong>Time Slot:</strong> '' @
       interp (timeSlot a) @
       ''</p>\<newline>'' @
       ''              '' @
       (case doctorDetails of None \<Rightarrow> []
       | Some d \<Rightarrow>
       ''<p style=\"color: #333333; margin: 8px 0;\"><strong>Doctor:</strong> Dr. '' @
       doctor_name d @
       ''</p>'') @
       ''\<newline>'' @
       ''              '' @
       (case doctorDetails of None \<Rightarrow> []
       | Some d \<Rightarrow>
       if truthy (doctor_specialization d) then
       ''<p style=\"color: #333333; margin: 8px 0;\"><strong>Specialization:</strong> '' @
       interp (doctor_specialization d) @
       ''</p>''
       else []) @
       ''\<newline>'' @
       ''              '' @
       (if truthy (confirmationMessage a) then
       ''<p style=\"color: #333333; margin: 8px 0;\"><strong>Doctor'' @
       [CHR 0x27] @
       ''s Note:</strong> '' @
       interp (confirmationMessage a) @
       ''</p>''
       else []) @
       ''\<newline>'' @
       ''              '' @
       (if truthy (description a) then
       ''<p style=\"color: #333333; margin: 8px 0;\"><strong>Your Concern:</strong> '' @
       interp (description a) @
       ''</p>''
       else []) @
       ''\<newline>'' @
       ''            </div>\<newline>'' @
       ''\<newline>'' @
       ''            <h3 style=\"color: #333333; margin-bottom: 15px;\">Important Reminders:</h3>\<newline>'' @
       ''            <ul style=\"color: #333333; padding-left: 20px; margin-bottom: 20px;\">\<newline>'' @
       ''              <li style=\"margin-bottom: 8px;\">Please arrive 15 minutes before your scheduled time</li>\<newline>'' @
       ''              <li style=\"margin-bottom: 8px;\">Bring any relevant medical reports or documents</li>\<newline>'' @
       ''              <li style=\"margin-bottom: 8px;\">Carry your ID proof and insurance details if applicable</li>\<newline>'' @
       ''              <li style=\"margin-bottom: 8px;\">In case of emergency, contact the hospital directly</li>\<newline>'' @
       ''            </ul>\<newline>'' @
       ''\<newline>'' @
       ''            <p style=\"color: #333333; font-size: 16px; line-height: 1.6;\">\<newline>'' @
       ''              If you need to reschedule or cancel your appointment, please contact us at least 24 hours in advance.\<newline>'' @
       ''            </p>\<newline>'' @
       ''            \<newline>'' @
       ''            <div style=\"text-align: center; margin: 30px 0;\">\<newline>'' @
       ''              <a href=\"#\" style=\"display: inline-block; padding: 12px 24px; background: #667eea; color: white; text-decoration: none; border-radius: 5px; font-weight: bold;\">\<newline>'' @
       ''                Add to Calendar\<newline>'' @
       ''              </a>\<newline>'' @
       ''            </div>\<newline>'' @
       ''          </div>\<newline>'' @
       ''          \<newline>'' @
       ''          <div style=\"text-align: center; margin-top: 20px; padding: 20px; color: #666; font-size: 12px;\">\<newline>'' @
       ''            <p>Thank you for choosing MediCare Hub for your healthcare needs.</p>\<newline>'' @
       ''            <p>If you have any questions, please contact our support team.</p>\<newline>'' @
       ''            <p>'' @
       [CHR 0xC2, CHR 0xA9] @
       '' '' @
       number_str (current_year e) @
       '' MediCare Hub. All rights reserved.</p>\<newline>'' @
       ''          </div>\<newline>'' @
       ''        </div>\<newline>'' @
       ''      ''"

definition confirmation_text :: "env \<Rightarrow> appointment \<Rightarrow> doctor option \<Rightarrow> string \<Rightarrow> string" where
  "confirmation_text e a doctorDetails formattedDate =
       ''\<newline>'' @
       ''Appointment Confirmed\<newline>'' @
       ''\<newline>'' @
       ''Dear '' @
       interp (patientName a) @
       '',\<newline>'' @
       ''\<newline>'' @
       ''Your appointment has been confirmed with the following details:\<newline>'' @
       ''\<newline>'' @
       ''Date: '' @
       formattedDate @
       ''\<newline>'' @
       ''Time: '' @
       interp (timeSlot a) @
       ''\<newline>'' @
       (case doctorDetails of None \<Rightarrow> []
       | Some d \<Rightarrow>
       ''Doctor: Dr. '' @
       doctor_name d) @
       ''\<newline>'' @
       (case doctorDetails of None \<Rightarrow> []
       | Some d \<Rightarrow>
       if truthy (doctor_specialization d) then
       ''Specialization: '' @
       interp (doctor_specialization d)
       else []) @
       ''\<newline>'' @
       (if truthy (confirmationMessage a) then
       ''Doctor'' @
       [CHR 0x27] @
       ''s Note: '' @
       interp (confirmationMessage a)
       else []) @
       ''\<newline>'' @
       (if truthy (description a) then
       ''Your Concern: '' @
       interp (description a)
       else []) @
       ''\<newline>'' @
       ''\<newline>'' @
       ''Important Reminders:\<newline>'' @
       ''- Please arrive 15 minutes before your scheduled time\<newline>'' @
       ''- Bring any relevant medical reports or documents\<newline>'' @
       ''- Carry your ID proof and insurance details if applicable\<newline>'' @
       ''- In case of emergency, contact the hospital directly\<newline>'' @
       ''\<newline>'' @
       ''If you need to reschedule or cancel, please contact us at least 24 hours in advance.\<newline>'' @
       ''\<newline>'' @
       ''Thank you for choosing MediCare Hub.\<newline>'' @
       ''\<newline>'' @
       [CHR 0xC2, CHR 0xA9] @
       '' '' @
       number_str (current_year e) @
       '' MediCare Hub. All rights reserved.\<newline>'' @
       ''      ''"

definition confirmation_mailOptions :: "env \<Rightarrow> appointment \<Rightarrow> doctor option \<Rightarrow> mail" where
  "confirmation_mailOptions e a doctorDetails =
     (let formattedDate = toLocaleDateString_long e (new_Date e (appointmentDate a))
      in \<lparr>mail_from = ''\"MediCare Hub\" <'' @ interp (EMAIL_USER e) @ ''>'',
           mail_to = interp (patientEmail a),
           subject = ''Appointment Confirmed - '' @ formattedDate,
           html = confirmation_html e a doctorDetails formattedDate,
           text_body = Some (confirmation_text e a doctorDetails formattedDate)\<rparr>)"

definition sendAppointmentConfirmationEmail_try ::
  "env \<Rightarrow> appointment \<Rightarrow> doctor option \<Rightarrow> send_result settled" where
  "sendAppointmentConfirmationEmail_try e a doctorDetails =
     (let config = validateEmailConfig e
      in if \<not> valid config
         then (Inr \<lparr>success = False, messageId = None, error = config_error config,
                     details = None\<rparr>, [])
         else
           (case createTransporter e of
              Inl err \<Rightarrow> (Inl err, [])
            | Inr transporter \<Rightarrow>
                (case transporter_verify e of
                   Some err \<Rightarrow> (Inl err, [Verify])
                 | None \<Rightarrow>
                     if \<not> truthy (patientEmail a)
                     then (Inr \<lparr>success = False, messageId = None,
                                 error = Some ''Patient email not found'', details = None\<rparr>,
                           [Verify])
                     else
                       (let mailOptions = confirmation_mailOptions e a doctorDetails
                        in (case transporter_sendMail e mailOptions of
                              Inl err \<Rightarrow> (Inl err, [Verify, SendMail mailOptions])
                            | Inr mid \<Rightarrow>
                                (Inr \<lparr>success = True, messageId = Some mid, error = None,
                                       details = None\<rparr>,
                                 [Verify, SendMail mailOptions]))))))"

definition sendAppointmentConfirmationEmail_catch :: "js_error \<Rightarrow> send_result" where
  "sendAppointmentConfirmationEmail_catch err =
     (let errorMessage =
            (if err_code err = Some ''EAUTH''
             then ''Email authentication failed. Please check your email configuration.''
             else if err_code err = Some ''ECONNECTION'' \<or> err_code err = Some ''ETIMEDOUT''
             then ''Connection error. Please check your internet connection.''
             else if truthy (err_message err) then interp (err_message err)
             else ''Failed to send appointment confirmation email.'')
      in \<lparr>success = False, messageId = None, error = Some errorMessage,
           details = err_message err\<rparr>)"

definition sendAppointmentConfirmationEmail ::
  "env \<Rightarrow> appointment \<Rightarrow> doctor option \<Rightarrow> send_result settled" where
  "sendAppointmentConfirmationEmail e a doctorDetails =
     (case sendAppointmentConfirmationEmail_try e a doctorDetails of
        (Inl err, net) \<Rightarrow> (Inr (sendAppointmentConfirmationEmail_catch err), net)
      | (Inr r, net) \<Rightarrow> (Inr r, net))"

section \<open>The confirmation route (\<open>routes/doctor.js\<close>)\<close>

subsection \<open>The appointment collection\<close>

text \<open>
  \<open>appointment.findOne({_id: appointmentId, doctorid: doctorId})\<close>: the first
  document with both fields equal to the given values, \<open>null\<close> when there is none.
\<close>

definition appointment_findOne ::
  "env \<Rightarrow> appointment list \<Rightarrow> string \<Rightarrow> string \<Rightarrow> js_error + appointment option" where
  "appointment_findOne e appointments appointmentId doctorId =
     (case findOne_rejects e appointmentId doctorId of
        Some err \<Rightarrow> Inl err
      | None \<Rightarrow>
          Inr (find (\<lambda>a. appt_id a = appointmentId \<and> doctorid a = Some doctorId) appointments))"

text \<open>\<open>doc.save()\<close> writes the document back over the stored one with its \<open>_id\<close>.\<close>

fun write_back :: "appointment \<Rightarrow> appointment list \<Rightarrow> appointment list" where
  "write_back doc [] = []"
| "write_back doc (a # as) = (if appt_id a = appt_id doc then doc # as else a # write_back doc as)"

definition appointment_save ::
  "env \<Rightarrow> appointment \<Rightarrow> appointment list \<Rightarrow> js_error + appointment list" where
  "appointment_save e doc appointments =
     (case save_rejects e doc of
        Some err \<Rightarrow> Inl err
      | None \<Rightarrow> Inr (write_back doc appointments))"

subsection \<open>\<open>getDoctorById\<close>\<close>

text \<open>
  The names \<open>routes/doctor.js\<close> binds: its imports and its own top-level
  declarations. Reading any other name that is not a global of the runtime throws a
  ReferenceError; \<open>mongoose\<close> is not a global of Node.js.
\<close>

definition doctor_js_bindings :: "string list" where
  "doctor_js_bindings =
     [''Router'', ''bcrypt'', ''doctor'', ''appointment'', ''generateCode'', ''multer'',
      ''cloudinary'', ''sendAppointmentConfirmationEmail'',
      ''doctorRouter'', ''storage'', ''upload'', ''isDoctorLoggedIn'', ''getDoctorById'']"

definition read_name :: "string \<Rightarrow> js_error + unit" where
  "read_name x =
     (if x \<in> set doctor_js_bindings then Inr ()
      else Inl (Error (Some (x @ '' is not defined''))))"

text \<open>
  \<open>mongoose.model(name)\<close> returns the model registered under that name and throws
  when there is none. The doctor schema is registered as \<open>"doctor"\<close>.
\<close>

definition mongoose_model :: "string \<Rightarrow> js_error + unit" where
  "mongoose_model name =
     (if name = ''doctor'' then Inr ()
      else Inl (Error (Some (''Schema hasn'' @ [CHR 0x27] @ ''t been registered for model \"''
                             @ name @ ''\".''))))"

definition getDoctorById :: "doctor list \<Rightarrow> string \<Rightarrow> doctor option" where
  "getDoctorById doctors doctorId =
     (case read_name ''mongoose'' of
        Inl err \<Rightarrow> None
      | Inr mongoose \<Rightarrow>
          (case mongoose_model ''Doctor'' of
             Inl err \<Rightarrow> None
           | Inr Doctor \<Rightarrow> find (\<lambda>d. doctor_doctorid d = Some doctorId) doctors))"

subsection \<open>The handler\<close>

record request =
  session_doctorId :: js_string
  param_appointmentId :: string
  body_timeSlot :: js_string
  body_appointmentDate :: js_string
  body_confirmationMessage :: js_string

record json_body =
  json_success :: bool
  json_message :: string
  json_appointment :: "appointment option"
  json_emailSent :: "bool option"

datatype response = Redirect string | Json nat json_body

text \<open>What a request leaves behind: the response, the collection, the network actions.\<close>

record handled =
  response :: response
  stored :: "appointment list"
  network :: "net_action list"

definition isDoctorLoggedIn :: "request \<Rightarrow> bool" where
  "isDoctorLoggedIn req = truthy (session_doctorId req)"

text \<open>The sentence stored when the request carries no confirmation message.\<close>

definition default_confirmationMessage :: "env \<Rightarrow> js_string \<Rightarrow> js_string \<Rightarrow> string" where
  "default_confirmationMessage e timeSlot' appointmentDate' =
     ''Your appointment has been confirmed for '' @ interp timeSlot' @ '' on ''
       @ toLocaleDateString_default e (new_Date e appointmentDate')"

text \<open>The assignments to \<open>foundAppointment\<close> before \<open>save()\<close>.\<close>

definition confirm_update :: "env \<Rightarrow> request \<Rightarrow> appointment \<Rightarrow> appointment" where
  "confirm_update e req foundAppointment =
     foundAppointment
       \<lparr>status := Some ''confirmed'',
        timeSlot := body_timeSlot req,
        appointmentDate := body_appointmentDate req,
        confirmationMessage :=
          (if truthy (body_confirmationMessage req) then body_confirmationMessage req
           else Some (default_confirmationMessage e (body_timeSlot req)
                        (body_appointmentDate req)))\<rparr>"

text \<open>
  The inner \<open>try\<close> block: the doctor lookup and the send. It settles like an async
  function; the handler's \<open>catch (emailError)\<close> takes what it throws.
\<close>

definition notify_patient ::
  "env \<Rightarrow> doctor list \<Rightarrow> string \<Rightarrow> appointment \<Rightarrow> send_result settled" where
  "notify_patient e doctors doctorId foundAppointment =
     (let doctorDetails = getDoctorById doctors doctorId
      in sendAppointmentConfirmationEmail e foundAppointment doctorDetails)"

definition server_error :: "js_error \<Rightarrow> response" where
  "server_error err =
     Json 500 \<lparr>json_success = False,
               json_message = ''Error confirming appointment: '' @ interp (err_message err),
               json_appointment = None, json_emailSent = None\<rparr>"

definition confirm_appointment ::
  "env \<Rightarrow> appointment list \<Rightarrow> doctor list \<Rightarrow> request \<Rightarrow> handled" where
  "confirm_appointment e appointments doctors req =
     (if \<not> isDoctorLoggedIn req
      then \<lparr>response = Redirect ''/doctorLogin'', stored = appointments, network = []\<rparr>
      else
        (let appointmentId = param_appointmentId req;
             doctorId = interp (session_doctorId req)
         in case appointment_findOne e appointments appointmentId doctorId of
              Inl err \<Rightarrow>
                \<lparr>response = server_error err, stored = appointments, network = []\<rparr>
            | Inr None \<Rightarrow>
                \<lparr>response =
                   Json 404 \<lparr>json_success = False, json_message = ''Appointment not found'',
                             json_appointment = None, json_emailSent = None\<rparr>,
                 stored = appointments, network = []\<rparr>
            | Inr (Some found) \<Rightarrow>
                (let foundAppointment = confirm_update e req found
                 in case appointment_save e foundAppointment appointments of
                      Inl err \<Rightarrow>
                        \<lparr>response = server_error err, stored = appointments, network = []\<rparr>
                    | Inr appointments' \<Rightarrow>
                        (let net =
                               (case notify_patient e doctors doctorId foundAppointment of
                                  (Inl emailError, net) \<Rightarrow> net
                                | (Inr emailResult, net) \<Rightarrow> net)
                         in \<lparr>response =
                               Json 200
                                 \<lparr>json_success = True,
                                  json_message =
                                    ''Appointment confirmed successfully. Patient will be notified.'',
                                  json_appointment = Some foundAppointment,
                                  json_emailSent = Some True\<rparr>,
                             stored = appointments', network = net\<rparr>))))"

section \<open>A concrete request\<close>

text \<open>
  The scenario the specification tests with: appointment \<open>a1\<close> of doctor \<open>d1\<close>, whose
  record names him Smith, a cardiologist; the doctor confirms it for the slot
  \<open>10:00-10:30\<close> on \<open>2024-06-01\<close> and writes no message. The mail relay is configured
  and accepts the mail; the server runs in UTC with the locale \<open>en-US\<close>.
\<close>

definition example_env :: env where
  "example_env =
     \<lparr>EMAIL_USER = Some ''clinic@example.com'', EMAIL_PASS = Some ''app-password'',
      transporter_verify = None,
      transporter_sendMail = (\<lambda>m. Inr ''<message-1@example.com>''),
      findOne_rejects = (\<lambda>i d. None), save_rejects = (\<lambda>a. None),
      current_year = 2024, timezone_offset = 0, default_locale = en_US,
      host_date_parse = (\<lambda>s. Invalid_Date)\<rparr>"

definition example_appointment :: appointment where
  "example_appointment =
     \<lparr>appt_id = ''a1'', doctorid = Some ''d1'', patientName = None,
      patientEmail = Some ''p@x.com'', description = None, status = Some ''requested'',
      timeSlot = None, appointmentDate = None, confirmationMessage = None\<rparr>"

definition example_doctor :: doctor where
  "example_doctor =
     \<lparr>doctor_name = ''Smith'', doctor_email = ''smith@x.com'', doctor_passwordHash = ''$2a$10$'',
      doctor_phone = None, doctor_gender = None, doctor_status = ''approved'',
      doctor_idproof = None, doctor_profilePicture = None, doctor_doctorid = Some ''d1'',
      doctor_specialization = Some ''Cardiology'', doctor_location = None\<rparr>"

definition example_request :: request where
  "example_request =
     \<lparr>session_doctorId = Some ''d1'', param_appointmentId = ''a1'',
      body_timeSlot = Some ''10:00-10:30'', body_appointmentDate = Some ''2024-06-01'',
      body_confirmationMessage = None\<rparr>"

text \<open>The appointment after that confirmation.\<close>

definition example_confirmed :: appointment where
  "example_confirmed =
     \<lparr>appt_id = ''a1'', doctorid = Some ''d1'', patientName = None,
      patientEmail = Some ''p@x.com'', description = None, status = Some ''confirmed'',
      timeSlot = Some ''10:00-10:30'', appointmentDate = Some ''2024-06-01'',
      confirmationMessage =
        Some ''Your appointment has been confirmed for 10:00-10:30 on 6/1/2024''\<rparr>"

text \<open>A later request for the same appointment, with another slot, date and message.\<close>

definition example_second_request :: request where
  "example_second_request =
     \<lparr>session_doctorId = Some ''d1'', param_appointmentId = ''a1'',
      body_timeSlot = Some ''11:00-11:30'', body_appointmentDate = Some ''2024-06-02'',
      body_confirmationMessage = Some ''Moved to the later slot''\<rparr>"

text \<open>The error of a relay that refuses the login.\<close>

definition auth_error :: js_error where
  "auth_error =
     \<lparr>err_code = Some ''EAUTH'', err_responseCode = Some 535,
      err_message = Some ''Invalid login''\<rparr>"

section \<open>Lemmas\<close>

subsection \<open>The send functions\<close>

text \<open>
  Each send function, read as one case distinction: the configuration, the connectivity
  check, the recipient (for the confirmation mail), the send.
\<close>

lemma createTransporter_valid:
  "valid (validateEmailConfig e) \<Longrightarrow> createTransporter e = Inr ()"
  by (simp add: createTransporter_def)

lemma sendAppointmentConfirmationEmail_cases:
  "sendAppointmentConfirmationEmail e a dd =
     (if \<not> valid (validateEmailConfig e)
      then (Inr \<lparr>success = False, messageId = None,
                  error = config_error (validateEmailConfig e), details = None\<rparr>, [])
      else case transporter_verify e of
             Some err \<Rightarrow> (Inr (sendAppointmentConfirmationEmail_catch err), [Verify])
           | None \<Rightarrow>
               if \<not> truthy (patientEmail a)
               then (Inr \<lparr>success = False, messageId = None,
                           error = Some ''Patient email not found'', details = None\<rparr>, [Verify])
               else (case transporter_sendMail e (confirmation_mailOptions e a dd) of
                       Inl err \<Rightarrow> (Inr (sendAppointmentConfirmationEmail_catch err),
                                   [Verify, SendMail (confirmation_mailOptions e a dd)])
                     | Inr mid \<Rightarrow> (Inr \<lparr>success = True, messageId = Some mid, error = None,
                                         details = None\<rparr>,
                                   [Verify, SendMail (confirmation_mailOptions e a dd)])))"
  by (simp add: sendAppointmentConfirmationEmail_def sendAppointmentConfirmationEmail_try_def
      createTransporter_valid Let_def split: option.splits sum.splits)

lemma sendOTPEmail_cases:
  "sendOTPEmail e email otp =
     (if \<not> valid (validateEmailConfig e)
      then (Inr \<lparr>success = False, messageId = None,
                  error = config_error (validateEmailConfig e), details = None\<rparr>, [])
      else case transporter_verify e of
             Some err \<Rightarrow> (Inr (sendOTPEmail_catch err), [Verify])
           | None \<Rightarrow>
               (case transporter_sendMail e (otp_mailOptions e email otp) of
                  Inl err \<Rightarrow> (Inr (sendOTPEmail_catch err),
                              [Verify, SendMail (otp_mailOptions e email otp)])
                | Inr mid \<Rightarrow> (Inr \<lparr>success = True, messageId = Some mid, error = None,
                                    details = None\<rparr>,
                              [Verify, SendMail (otp_mailOptions e email otp)])))"
  by (simp add: sendOTPEmail_def sendOTPEmail_try_def
      createTransporter_valid Let_def split: option.splits sum.splits)

text \<open>
  What the \<open>catch\<close> blocks and the configuration check return is a failure with a
  non-empty error text.
\<close>

lemma truthy_Some: "truthy (Some s) = (s \<noteq> [])"
  by (simp add: truthy_def)

lemma truthy_interp: "truthy v \<Longrightarrow> interp v \<noteq> []"
  by (cases v) (simp_all add: truthy_def interp_def)

lemma confirmation_catch_fails:
  "\<not> success (sendAppointmentConfirmationEmail_catch err)
   \<and> truthy (error (sendAppointmentConfirmationEmail_catch err))"
  by (simp add: sendAppointmentConfirmationEmail_catch_def truthy_Some truthy_interp)

lemma otp_catch_fails:
  "\<not> success (sendOTPEmail_catch err) \<and> truthy (error (sendOTPEmail_catch err))"
  by (simp add: sendOTPEmail_catch_def truthy_Some truthy_interp)

lemma invalid_config_error:
  "\<not> valid (validateEmailConfig e) \<Longrightarrow> truthy (config_error (validateEmailConfig e))"
  by (simp add: validateEmailConfig_def truthy_Some split: if_splits)

lemma missing_user_invalid:
  "EMAIL_USER e = None \<Longrightarrow>
   validateEmailConfig e =
     \<lparr>valid = False, config_error = Some ''EMAIL_USER is not set in environment variables''\<rparr>"
  by (simp add: validateEmailConfig_def truthy_def)

text \<open>
  Both functions settle with a result, never with a thrown error.
\<close>

lemma otp_settles:
  "(case fst (sendOTPEmail e email otp) of
      Inl err \<Rightarrow> False
    | Inr r \<Rightarrow>
        success r = (valid (validateEmailConfig e) \<and> transporter_verify e = None
                     \<and> (\<exists>mid. transporter_sendMail e (otp_mailOptions e email otp) = Inr mid))
        \<and> (if success r
            then \<exists>mid. transporter_sendMail e (otp_mailOptions e email otp) = Inr mid
                       \<and> messageId r = Some mid
            else truthy (error r)))"
  by (simp add: sendOTPEmail_cases otp_catch_fails invalid_config_error truthy_Some
        split: option.splits sum.splits)

lemma confirmation_settles:
  "(case fst (sendAppointmentConfirmationEmail e a doctorDetails) of
      Inl err \<Rightarrow> False
    | Inr r \<Rightarrow>
        success r = (valid (validateEmailConfig e) \<and> transporter_verify e = None
                     \<and> truthy (patientEmail a)
                     \<and> (\<exists>mid. transporter_sendMail e (confirmation_mailOptions e a doctorDetails)
                                 = Inr mid))
        \<and> (if success r
            then \<exists>mid. transporter_sendMail e (confirmation_mailOptions e a doctorDetails) = Inr mid
                       \<and> messageId r = Some mid
            else truthy (error r)))"
  by (simp add: sendAppointmentConfirmationEmail_cases confirmation_catch_fails
        invalid_config_error truthy_Some split: option.splits sum.splits)

lemma sum_case_ex: "(case x of Inl err \<Rightarrow> False | Inr r \<Rightarrow> P r) \<Longrightarrow> \<exists>r. x = Inr r \<and> P r"
  by (cases x) simp_all

lemma no_SendMail_without_recipient:
  "\<not> truthy (patientEmail a) \<Longrightarrow>
     SendMail m \<notin> set (snd (sendAppointmentConfirmationEmail e a doctorDetails))"
  by (simp add: sendAppointmentConfirmationEmail_cases split: option.splits)

subsection \<open>The collection\<close>

text \<open>
  A query finds nothing exactly when no document matches; after a found document is
  written back with its keys unchanged, the same query finds the written document.
\<close>

lemma find_None_iff_no_match:
  "(find P xs = None) = (\<forall>x\<in>set xs. \<not> P x)"
  by (induction xs) auto

lemma find_write_back:
  assumes "find (\<lambda>a. appt_id a = i \<and> doctorid a = Some d) as = Some found"
    and "appt_id doc = i" and "doctorid doc = Some d"
  shows "find (\<lambda>a. appt_id a = i \<and> doctorid a = Some d) (write_back doc as) = Some doc"
  using assms by (induction as) (auto split: if_splits)

lemma findOne_Some_fields:
  assumes "appointment_findOne e as i d = Inr (Some found)"
  shows "appt_id found = i \<and> doctorid found = Some d \<and> found \<in> set as
         \<and> findOne_rejects e i d = None"
proof -
  from assms have r: "findOne_rejects e i d = None"
    and f: "find (\<lambda>a. appt_id a = i \<and> doctorid a = Some d) as = Some found"
    by (auto simp: appointment_findOne_def split: option.splits)
  from f show ?thesis using r
    by (auto simp: find_Some_iff)
qed

lemma confirm_update_keys:
  "appt_id (confirm_update e req a) = appt_id a \<and> doctorid (confirm_update e req a) = doctorid a"
  by (simp add: confirm_update_def)

lemma confirm_update_patientEmail:
  "patientEmail (confirm_update e req a) = patientEmail a"
  by (simp add: confirm_update_def)

lemma findOne_after_write_back:
  assumes "appointment_findOne e as i d = Inr (Some found)"
  shows "appointment_findOne e (write_back (confirm_update e req found) as) i d
           = Inr (Some (confirm_update e req found))"
proof -
  from assms have r: "findOne_rejects e i d = None"
    and f: "find (\<lambda>a. appt_id a = i \<and> doctorid a = Some d) as = Some found"
    by (auto simp: appointment_findOne_def split: option.splits)
  from findOne_Some_fields[OF assms] have k: "appt_id found = i" "doctorid found = Some d"
    by simp_all
  have "find (\<lambda>a. appt_id a = i \<and> doctorid a = Some d) (write_back (confirm_update e req found) as)
          = Some (confirm_update e req found)"
    by (rule find_write_back[OF f]) (simp_all add: confirm_update_keys k)
  then show ?thesis using r by (simp add: appointment_findOne_def)
qed

subsection \<open>The handler\<close>

text \<open>
  \<open>getDoctorById\<close> returns \<open>null\<close> for every collection and every id: reading
  \<open>mongoose\<close> throws, and the function's own \<open>catch\<close> returns \<open>null\<close>.
\<close>

lemma getDoctorById_null: "getDoctorById doctors doctorId = None"
  by (simp add: getDoctorById_def read_name_def doctor_js_bindings_def)

text \<open>
  The handler on the path where the appointment is found and the write succeeds.
\<close>

lemma confirm_appointment_found:
  assumes "truthy (session_doctorId req)"
    and "appointment_findOne e as (param_appointmentId req) (interp (session_doctorId req)) = Inr (Some found)"
    and "save_rejects e (confirm_update e req found) = None"
  shows "confirm_appointment e as ds req =
     \<lparr>response =
        Json 200
          \<lparr>json_success = True,
           json_message = ''Appointment confirmed successfully. Patient will be notified.'',
           json_appointment = Some (confirm_update e req found),
           json_emailSent = Some True\<rparr>,
      stored = write_back (confirm_update e req found) as,
      network = snd (sendAppointmentConfirmationEmail e (confirm_update e req found) None)\<rparr>"
  using assms
  by (simp add: confirm_appointment_def isDoctorLoggedIn_def appointment_save_def
      notify_patient_def getDoctorById_null Let_def split: prod.splits sum.splits)

subsection \<open>The calendar\<close>

text \<open>
  The two calendar functions are inverse to each other on the dates of the calendar:
  the day number of a date, turned back into a date, is that date.
\<close>

lemma month_cases:
  assumes "1 \<le> m" "m \<le> (12::int)"
  shows "m = 1 \<or> m = 2 \<or> m = 3 \<or> m = 4 \<or> m = 5 \<or> m = 6 \<or> m = 7 \<or> m = 8 \<or> m = 9
         \<or> m = 10 \<or> m = 11 \<or> m = 12"
  using assms by arith

lemma month_back:
  assumes "1 \<le> m" "m \<le> 12" "1 \<le> d" "d \<le> days_in_month y m"
    and "mp = (if m > 2 then m - 3 else m + 9)"
    and "doy = (153 * mp + 2) div 5 + d - 1"
  shows "(5 * doy + 2) div 153 = mp
       \<and> doy - (153 * mp + 2) div 5 + 1 = d
       \<and> 0 \<le> doy \<and> doy \<le> 365
       \<and> (doy = 365 \<longrightarrow> m = 2 \<and> is_leap_year y)"
  using month_cases[OF assms(1,2)] assms(3-6)
  by (elim disjE) (simp_all add: days_in_month_def split: if_splits)

lemma div_shift:
  fixes k w n :: int
  assumes "0 \<le> w" "w < n"
  shows "(n * k + w) div n = k"
  using assms by (simp add: div_pos_pos_trivial)

lemma year_core:
  fixes c q r doy :: int
  assumes c: "0 \<le> c" "c \<le> 3" and q: "0 \<le> q" "q \<le> 24" and r: "0 \<le> r" "r \<le> 3"
    and doy: "0 \<le> doy" "doy \<le> 365"
    and leap: "doy = 365 \<longrightarrow> r = 3 \<and> (q = 24 \<longrightarrow> c = 3)"
  defines "doe \<equiv> 36524 * c + 1461 * q + 365 * r + doy"
  shows "0 \<le> doe \<and> doe < 146097
         \<and> (doe - doe div 1460 + doe div 36524 - doe div 146096) div 365 = 100 * c + 4 * q + r"
proof -
  define w where "w = q + 24 * c + 365 * r + doy"
  define e where "e = w div 1460"
  define R where "R = 1461 * q + 365 * r + doy"
  have w: "0 \<le> w" "w < 2920" using c q r doy by (simp_all add: w_def)
  have e: "e = (if 1460 \<le> w then 1 else 0)"
    using w unfolding e_def by (auto simp: div_pos_pos_trivial intro: int_div_pos_eq[where r = "w - 1460"])
  have "doe = 1460 * (25 * c + q) + w" by (simp add: doe_def w_def)
  then have d1460: "doe div 1460 = 25 * c + q + e"
    unfolding e_def by (simp only: div_mult_self2[of 1460 w "25 * c + q", simplified add.commute] ) (simp add: add.commute)
  have bounds: "0 \<le> doe" "doe < 146097" using c q r doy by (simp_all add: doe_def)
  have fin: "(365 * (100 * c + 4 * q + r) + (doy - e)) div 365 = 100 * c + 4 * q + r"
  proof (rule div_shift)
    show "0 \<le> doy - e" using e w doy c q r by (auto simp: w_def split: if_splits)
    show "doy - e < 365" using e w doy leap r c q by (auto simp: w_def split: if_splits)
  qed
  show ?thesis
  proof (cases "doe = 146096")
    case True
    then have "c = 3 \<and> q = 24 \<and> r = 3 \<and> doy = 365" using c q r doy by (simp add: doe_def)
    then show ?thesis by (simp add: doe_def)
  next
    case False
    have "R < 36524" using False c q r doy leap by (auto simp: R_def doe_def) 
    moreover have "0 \<le> R" using q r doy by (simp add: R_def)
    moreover have "doe = 36524 * c + R" by (simp add: doe_def R_def)
    ultimately have d36524: "doe div 36524 = c" by (simp add: div_shift)
    have d146096: "doe div 146096 = 0" using bounds False by (simp add: div_pos_pos_trivial)
    have "doe - doe div 1460 + doe div 36524 - doe div 146096
            = 365 * (100 * c + 4 * q + r) + (doy - e)"
      by (simp add: d1460 d36524 d146096) (simp add: doe_def)
    then show ?thesis using fin bounds by simp
  qed
qed

lemma mod_shift:
  fixes k w n :: int
  assumes "0 \<le> w" "w < n"
  shows "(n * k + w) mod n = w"
  using assms by (simp add: mod_pos_pos_trivial)

lemma mod_drop_400:
  fixes a e :: int
  shows "(a + 400 * e) mod 4 = a mod 4" "(a + 400 * e) mod 100 = a mod 100"
    "(a + 400 * e) mod 400 = a mod 400"
proof -
  have "a + 400 * e = a + 4 * (100 * e)" by simp
  then show "(a + 400 * e) mod 4 = a mod 4" by (simp only: mod_mult_self2)
  have "a + 400 * e = a + 100 * (4 * e)" by simp
  then show "(a + 400 * e) mod 100 = a mod 100" by (simp only: mod_mult_self2)
  show "(a + 400 * e) mod 400 = a mod 400" by (simp only: mod_mult_self2)
qed

lemma year_back:
  fixes yoe doy :: int
  assumes yoe: "0 \<le> yoe" "yoe < 400" and doy: "0 \<le> doy" "doy \<le> 365"
    and leap: "doy = 365 \<longrightarrow> (yoe + 1) mod 4 = 0 \<and> ((yoe + 1) mod 400 = 0 \<or> (yoe + 1) mod 100 \<noteq> 0)"
  defines "doe \<equiv> yoe * 365 + yoe div 4 - yoe div 100 + doy"
  shows "0 \<le> doe \<and> doe < 146097
         \<and> (doe - doe div 1460 + doe div 36524 - doe div 146096) div 365 = yoe"
proof -
  define c where "c = yoe div 100"
  define k where "k = yoe mod 100"
  define q where "q = k div 4"
  define r where "r = k mod 4"
  have yk: "yoe = 100 * c + k" unfolding c_def k_def by simp
  have kb: "0 \<le> k" "k < 100" unfolding k_def by simp_all
  have kq: "k = 4 * q + r" unfolding q_def r_def by simp
  have rb': "0 \<le> r" "r < 4" unfolding r_def by simp_all
  then have rb: "0 \<le> r" "r \<le> 3" by simp_all
  have cb: "0 \<le> c" "c \<le> 3" using yoe yk kb by linarith+
  have qb: "0 \<le> q" "q \<le> 24" using kb kq rb' by linarith+
  have split: "yoe = 100 * c + 4 * q + r" using yk kq by simp
  have "yoe = 4 * (25 * c + q) + r" using split by simp
  then have d4: "yoe div 4 = 25 * c + q" using rb' by (simp only: div_shift)
  have d100: "yoe div 100 = c" by (simp add: c_def)
  have l: "doy = 365 \<longrightarrow> r = 3 \<and> (q = 24 \<longrightarrow> c = 3)"
  proof
    assume "doy = 365"
    with leap have a: "(yoe + 1) mod 4 = 0" and b: "(yoe + 1) mod 400 = 0 \<or> (yoe + 1) mod 100 \<noteq> 0"
      by simp_all
    have r3: "r = 3"
    proof (rule ccontr)
      assume "r \<noteq> 3"
      with rb have "0 \<le> r + 1" "r + 1 < 4" by simp_all
      then have "(4 * (25 * c + q) + (r + 1)) mod 4 = r + 1" by (rule mod_shift)
      moreover have "yoe + 1 = 4 * (25 * c + q) + (r + 1)" using split by simp
      ultimately have "(yoe + 1) mod 4 = r + 1" by (simp only:)
      with a rb show False by simp
    qed
    have "q = 24 \<longrightarrow> c = 3"
    proof
      assume "q = 24"
      with r3 split have y1: "yoe + 1 = 100 * (c + 1)" by simp
      then have "(yoe + 1) mod 100 = 0" by simp
      with b have "(yoe + 1) mod 400 = 0" by simp
      then have z: "(100 * (c + 1)) mod 400 = 0" unfolding y1 .
      from cb have "c = 0 \<or> c = 1 \<or> c = 2 \<or> c = 3" by linarith
      with z show "c = 3" by (elim disjE) simp_all
    qed
    with r3 show "r = 3 \<and> (q = 24 \<longrightarrow> c = 3)" by simp
  qed
  have "doe = 36524 * c + 1461 * q + 365 * r + doy"
    unfolding doe_def d4 d100 by (simp add: split)
  with year_core[OF cb qb rb doy l] split show ?thesis by simp
qed

lemma civil_from_days_steps:
  assumes "z + 719468 = 146097 * era + doe" and "0 \<le> doe" and "doe < 146097"
    and "(doe - doe div 1460 + doe div 36524 - doe div 146096) div 365 = yoe"
    and "doe - (365 * yoe + yoe div 4 - yoe div 100) = doy"
    and "(5 * doy + 2) div 153 = mp"
    and "doy - (153 * mp + 2) div 5 + 1 = d"
  shows "civil_from_days z =
           (if (if mp < 10 then mp + 3 else mp - 9) \<le> 2 then yoe + era * 400 + 1
            else yoe + era * 400,
            if mp < 10 then mp + 3 else mp - 9, d)"
proof -
  have e: "(z + 719468) div 146097 = era"
    unfolding assms(1) using assms(2,3) by (rule div_shift)
  have de: "z + 719468 - era * 146097 = doe" using assms(1) by simp
  show ?thesis
    unfolding civil_from_days_def Let_def e de assms(4) assms(5) assms(6) assms(7)
    by (rule refl)
qed

lemma civil_round_trip:
  assumes m: "1 \<le> m" "m \<le> 12" and d: "1 \<le> d" "d \<le> days_in_month y m"
  shows "civil_from_days (days_from_civil y m d) = (y, m, d)"
proof -
  define y' where "y' = (if m \<le> 2 then y - 1 else y)"
  define era where "era = y' div 400"
  define yoe where "yoe = y' - era * 400"
  define mp where "mp = (if m > 2 then m - 3 else m + 9)"
  define doy where "doy = (153 * mp + 2) div 5 + d - 1"
  define doe where "doe = yoe * 365 + yoe div 4 - yoe div 100 + doy"
  have "yoe = y' mod 400" unfolding yoe_def era_def by (simp add: minus_div_mult_eq_mod)
  then have yoe: "0 \<le> yoe" "yoe < 400" by simp_all
  from month_back[OF m d mp_def doy_def] have
    mb: "(5 * doy + 2) div 153 = mp" "doy - (153 * mp + 2) div 5 + 1 = d"
    and doyb: "0 \<le> doy" "doy \<le> 365" and dl: "doy = 365 \<longrightarrow> m = 2 \<and> is_leap_year y"
    by simp_all
  have leap: "doy = 365 \<longrightarrow> (yoe + 1) mod 4 = 0 \<and> ((yoe + 1) mod 400 = 0 \<or> (yoe + 1) mod 100 \<noteq> 0)"
  proof
    assume "doy = 365"
    with dl have m2: "m = 2" and ly: "is_leap_year y" by simp_all
    from m2 have "y = (yoe + 1) + 400 * era" unfolding yoe_def y'_def by simp
    with ly show "(yoe + 1) mod 4 = 0 \<and> ((yoe + 1) mod 400 = 0 \<or> (yoe + 1) mod 100 \<noteq> 0)"
      unfolding is_leap_year_def by (simp only: mod_drop_400)
  qed
  from year_back[OF yoe doyb leap] have
    doeb: "0 \<le> doe" "doe < 146097"
    and yb: "(doe - doe div 1460 + doe div 36524 - doe div 146096) div 365 = yoe"
    unfolding doe_def by simp_all
  have "days_from_civil y m d = era * 146097 + doe - 719468"
    unfolding days_from_civil_def Let_def doe_def doy_def mp_def yoe_def era_def y'_def
    by (rule refl)
  then have z: "days_from_civil y m d + 719468 = 146097 * era + doe" by simp
  have doy': "doe - (365 * yoe + yoe div 4 - yoe div 100) = doy" unfolding doe_def by simp
  have mback: "(if mp < 10 then mp + 3 else mp - 9) = m" using m unfolding mp_def by auto
  have yback: "(if m \<le> 2 then yoe + era * 400 + 1 else yoe + era * 400) = y"
    unfolding yoe_def y'_def by simp
  show ?thesis
    unfolding civil_from_days_steps[OF z doeb yb doy' mb] mback yback by (rule refl)
qed

text \<open>
  A date-only string is a date of the calendar; east of UTC (and at UTC) the local day
  of its UTC midnight is that date, and the default format prints it.
\<close>

lemma parse_date_only_valid:
  assumes "parse_date_only s = Some (y, m, d)"
  shows "1 \<le> m \<and> m \<le> 12 \<and> 1 \<le> d \<and> d \<le> days_in_month y m"
  using assms by (auto simp: parse_date_only_def Let_def split: if_splits)

lemma local_day_east:
  assumes "0 \<le> timezone_offset e" "timezone_offset e < 1440"
  shows "local_day e (D * 86400000) = D"
proof -
  have "0 \<le> timezone_offset e * 60000" "timezone_offset e * 60000 < 86400000"
    using assms by simp_all
  then have "(86400000 * D + timezone_offset e * 60000) div 86400000 = D"
    by (rule div_shift)
  then show ?thesis by (simp add: local_day_def mult.commute)
qed

lemma default_is_numeric:
  assumes "civil_from_days (local_day e t) = (y, m, d)"
  shows "toLocaleDateString_default e (Time_Value t) = numeric_date (default_locale e) y m d"
  using assms by (simp add: toLocaleDateString_default_def numeric_date_def)

lemma date_only_prints_its_day:
  assumes "parse_date_only s = Some (y, m, d)"
    and "0 \<le> timezone_offset e" "timezone_offset e < 1440"
  shows "toLocaleDateString_default e (new_Date e (Some s))
           = numeric_date (default_locale e) y m d"
proof -
  have n: "new_Date e (Some s) = Time_Value (days_from_civil y m d * 86400000)"
    using assms(1) by (simp add: new_Date_def)
  from parse_date_only_valid[OF assms(1)]
  have "civil_from_days (days_from_civil y m d) = (y, m, d)"
    by (simp add: civil_round_trip)
  then have "civil_from_days (local_day e (days_from_civil y m d * 86400000)) = (y, m, d)"
    by (simp only: local_day_east[OF assms(2,3)])
  then show ?thesis unfolding n by (rule default_is_numeric)
qed

subsection \<open>The scenario\<close>

text \<open>
  The first of June 2024 is day 19875 since the epoch, a Saturday.
\<close>

lemma parse_example_date: "parse_date_only ''2024-06-01'' = Some (2024, 6, 1)"
  by code_simp

lemma new_Date_example: "new_Date e (Some ''2024-06-01'') = Time_Value 1717200000000"
  by (simp add: new_Date_def parse_example_date days_from_civil_def)

lemma civil_example: "civil_from_days 19875 = (2024, 6, 1)"
  by code_simp

lemma default_date_en_US_utc:
  "timezone_offset e = 0 \<Longrightarrow> default_locale e = en_US \<Longrightarrow>
   toLocaleDateString_default e (new_Date e (Some ''2024-06-01'')) = ''6/1/2024''"
  by (simp add: new_Date_example toLocaleDateString_default_def local_day_def civil_example
      year_str_def)

lemma long_date_utc:
  "timezone_offset e = 0 \<Longrightarrow>
   toLocaleDateString_long e (new_Date e (Some ''2024-06-01'')) = ''Saturday, June 1, 2024''"
  by (simp add: new_Date_example toLocaleDateString_long_def local_day_def civil_example
      year_str_def week_day_def weekday_names_def month_names_def)

lemma confirm_update_en_US_utc:
  "timezone_offset e = 0 \<Longrightarrow> default_locale e = en_US \<Longrightarrow>
   confirm_update e example_request example_appointment = example_confirmed"
  by (simp add: confirm_update_def example_request_def example_appointment_def
      example_confirmed_def default_confirmationMessage_def default_date_en_US_utc truthy_def interp_def)

lemma example_long_date:
  "toLocaleDateString_long example_env (new_Date example_env (Some ''2024-06-01''))
     = ''Saturday, June 1, 2024''"
  by (rule long_date_utc) (simp add: example_env_def)

lemma example_default_date:
  "toLocaleDateString_default example_env (new_Date example_env (Some ''2024-06-01''))
     = ''6/1/2024''"
  by (rule default_date_en_US_utc) (simp_all add: example_env_def)

lemma example_confirm_update:
  "confirm_update example_env example_request example_appointment = example_confirmed"
  by (rule confirm_update_en_US_utc) (simp_all add: example_env_def)

text \<open>
  The request of the scenario, run.
\<close>

lemma example_mail_network:
  "sendAppointmentConfirmationEmail example_env example_confirmed None =
     (Inr \<lparr>success = True, messageId = Some ''<message-1@example.com>'', error = None,
            details = None\<rparr>,
      [Verify, SendMail (confirmation_mailOptions example_env example_confirmed None)])"
  by (simp add: sendAppointmentConfirmationEmail_cases validateEmailConfig_def truthy_def
      example_env_def example_confirmed_def)

lemma example_findOne:
  "appointment_findOne example_env [example_appointment] (param_appointmentId example_request)
     (interp (session_doctorId example_request)) = Inr (Some example_appointment)"
  by (simp add: appointment_findOne_def example_env_def example_appointment_def
      example_request_def interp_def)

lemma example_run:
  "confirm_appointment example_env [example_appointment] doctors example_request =
     \<lparr>response =
        Json 200
          \<lparr>json_success = True,
           json_message = ''Appointment confirmed successfully. Patient will be notified.'',
           json_appointment = Some example_confirmed,
           json_emailSent = Some True\<rparr>,
      stored = [example_confirmed],
      network = [Verify, SendMail (confirmation_mailOptions example_env example_confirmed None)]\<rparr>"
proof -
  have l: "truthy (session_doctorId example_request)"
    by (simp add: example_request_def truthy_def)
  have s: "save_rejects example_env (confirm_update example_env example_request example_appointment) = None"
    by (simp add: example_env_def)
  have w: "appt_id example_appointment = appt_id example_confirmed"
    by (simp add: example_confirmed_def example_appointment_def)
  show ?thesis
    by (simp add: confirm_appointment_found[OF l example_findOne s] example_confirm_update
        example_mail_network w)
qed

lemma example_subject:
  "subject (confirmation_mailOptions example_env example_confirmed None)
     = ''Appointment Confirmed - Saturday, June 1, 2024''"
proof -
  have "appointmentDate example_confirmed = Some ''2024-06-01''"
    by (simp add: example_confirmed_def)
  then show ?thesis
    by (simp add: confirmation_mailOptions_def example_long_date Let_def)
qed

lemma example_html:
  "html (confirmation_mailOptions example_env example_confirmed doctorDetails)
     = confirmation_html example_env example_confirmed doctorDetails ''Saturday, June 1, 2024''"
proof -
  have "appointmentDate example_confirmed = Some ''2024-06-01''"
    by (simp add: example_confirmed_def)
  then show ?thesis
    by (simp add: confirmation_mailOptions_def example_long_date Let_def)
qed

lemma example_text:
  "text_body (confirmation_mailOptions example_env example_confirmed doctorDetails)
     = Some (confirmation_text example_env example_confirmed doctorDetails ''Saturday, June 1, 2024'')"
proof -
  have "appointmentDate example_confirmed = Some ''2024-06-01''"
    by (simp add: example_confirmed_def)
  then show ?thesis
    by (simp add: confirmation_mailOptions_def example_long_date Let_def)
qed

text \<open>
  The mail that request sends is rendered without a doctor. Rendered with the
  scenario's doctor record, the same template does name him and his specialization.
\<close>

lemma example_text_no_doctor:
  "\<not> includes_str (confirmation_text example_env example_confirmed None ''Saturday, June 1, 2024'') ''Smith''
   \<and> \<not> includes_str (confirmation_text example_env example_confirmed None ''Saturday, June 1, 2024'') ''Cardiology''"
  by (simp add: confirmation_text_def example_env_def example_confirmed_def truthy_def
      interp_def number_str_def)

lemma example_html_no_doctor:
  "\<not> includes_str (confirmation_html example_env example_confirmed None ''Saturday, June 1, 2024'') ''Smith''
   \<and> \<not> includes_str (confirmation_html example_env example_confirmed None ''Saturday, June 1, 2024'') ''Cardiology''"
  by (simp add: confirmation_html_def example_env_def example_confirmed_def truthy_def
      interp_def number_str_def)

lemma example_text_with_doctor:
  "includes_str (confirmation_text example_env example_confirmed (Some example_doctor) ''Saturday, June 1, 2024'') ''Smith''
   \<and> includes_str (confirmation_text example_env example_confirmed (Some example_doctor) ''Saturday, June 1, 2024'') ''Cardiology''"
  by (simp add: confirmation_text_def example_env_def example_confirmed_def example_doctor_def
      truthy_def interp_def number_str_def)

text \<open>
  West of UTC the local day of that UTC midnight is the day before, and that is what
  the handler stores: four hours west, \<open>2024-06-01\<close> is printed as \<open>5/31/2024\<close>.
\<close>

lemma west_of_utc_prints_the_day_before:
  "toLocaleDateString_default (example_env\<lparr>timezone_offset := - 240\<rparr>)
     (new_Date (example_env\<lparr>timezone_offset := - 240\<rparr>) (Some ''2024-06-01''))
     = ''5/31/2024''"
proof -
  have c: "civil_from_days 19874 = (2024, 5, 31)" by code_simp
  show ?thesis
    by (simp add: new_Date_example toLocaleDateString_default_def local_day_def c
        year_str_def example_env_def)
qed

section \<open>The claims\<close>

text \<open>
  Claim C1: when the notification send fails, the response still reports success, its
  \<open>emailSent\<close> field is false and the stored appointment is confirmed.

  The code does not do that. With \<open>EMAIL_USER\<close> unset the send returns the
  configuration error and nothing reaches the network; the response reports success and
  the appointment is stored as confirmed, but \<open>emailSent\<close> is \<open>true\<close>: the handler
  writes the constant, whatever \<open>emailResult.success\<close> was.
\<close>

theorem emailSent_true_when_send_fails:
  "fst (sendAppointmentConfirmationEmail (example_env\<lparr>EMAIL_USER := None\<rparr>) example_confirmed None)
     = Inr \<lparr>success = False, messageId = None,
             error = Some ''EMAIL_USER is not set in environment variables'', details = None\<rparr>
   \<and> confirm_appointment (example_env\<lparr>EMAIL_USER := None\<rparr>) [example_appointment]
       [example_doctor] example_request =
       \<lparr>response =
          Json 200
            \<lparr>json_success = True,
             json_message = ''Appointment confirmed successfully. Patient will be notified.'',
             json_appointment = Some example_confirmed,
             json_emailSent = Some True\<rparr>,
        stored = [example_confirmed],
        network = []\<rparr>"
proof -
  let ?e = "example_env\<lparr>EMAIL_USER := None\<rparr>"
  have v: "validateEmailConfig ?e =
     \<lparr>valid = False, config_error = Some ''EMAIL_USER is not set in environment variables''\<rparr>"
    by (simp add: missing_user_invalid)
  have m: "sendAppointmentConfirmationEmail ?e example_confirmed None
     = (Inr \<lparr>success = False, messageId = None,
             error = Some ''EMAIL_USER is not set in environment variables'', details = None\<rparr>, [])"
    by (simp add: sendAppointmentConfirmationEmail_cases v)
  have u: "confirm_update ?e example_request example_appointment = example_confirmed"
    by (rule confirm_update_en_US_utc) (simp_all add: example_env_def)
  have l: "truthy (session_doctorId example_request)"
    by (simp add: example_request_def truthy_def)
  have f: "appointment_findOne ?e [example_appointment] (param_appointmentId example_request)
     (interp (session_doctorId example_request)) = Inr (Some example_appointment)"
    by (simp add: appointment_findOne_def example_env_def example_appointment_def
      example_request_def interp_def)
  have s: "save_rejects ?e (confirm_update ?e example_request example_appointment) = None"
    by (simp add: example_env_def)
  have w: "appt_id example_appointment = appt_id example_confirmed"
    by (simp add: example_confirmed_def example_appointment_def)
  show ?thesis
    by (simp add: confirm_appointment_found[OF l f s] u m w)
qed

text \<open>
  Claim C2, as amended: when the request carries no confirmation message (it is absent
  or empty) and the server's zone is UTC or east of it, the message persisted on the
  appointment is the sentence \<open>Your appointment has been confirmed for <timeSlot> on
  <date>\<close>, where the date is printed by \<open>toLocaleDateString()\<close> without arguments:
  numeric month, day and year in the server's default locale, not the long form with
  the weekday and the month's name, which only the email uses. For an appointment date
  given as \<open>YYYY-MM-DD\<close> the printed date is that calendar day (\<open>6/1/2024\<close> for
  \<open>2024-06-01\<close> in \<open>en-US\<close>). Nothing is stated for a server west of UTC.
\<close>

theorem default_message_uses_default_format:
  assumes "truthy (session_doctorId req)"
    and "appointment_findOne e appointments (param_appointmentId req)
           (interp (session_doctorId req)) = Inr (Some found)"
    and "save_rejects e (confirm_update e req found) = None"
    and "\<not> truthy (body_confirmationMessage req)"
    and "0 \<le> timezone_offset e" and "timezone_offset e < 1440"
  shows "\<exists>a'. appointment_findOne e (stored (confirm_appointment e appointments doctors req))
                (param_appointmentId req) (interp (session_doctorId req)) = Inr (Some a')
          \<and> confirmationMessage a' =
                Some (''Your appointment has been confirmed for '' @ interp (body_timeSlot req)
                      @ '' on ''
                      @ toLocaleDateString_default e (new_Date e (body_appointmentDate req)))
          \<and> (\<forall>s y m d. body_appointmentDate req = Some s \<and> parse_date_only s = Some (y, m, d)
                \<longrightarrow> confirmationMessage a' =
                      Some (''Your appointment has been confirmed for ''
                            @ interp (body_timeSlot req) @ '' on ''
                            @ numeric_date (default_locale e) y m d))"
proof -
  let ?a = "confirm_update e req found"
  have f: "appointment_findOne e (stored (confirm_appointment e appointments doctors req))
                (param_appointmentId req) (interp (session_doctorId req)) = Inr (Some ?a)"
    using assms(1-3) findOne_after_write_back[OF assms(2)]
    by (simp add: confirm_appointment_found)
  have g: "confirmationMessage ?a =
                Some (''Your appointment has been confirmed for '' @ interp (body_timeSlot req)
                      @ '' on ''
                      @ toLocaleDateString_default e (new_Date e (body_appointmentDate req)))"
    using assms(4) by (simp add: confirm_update_def default_confirmationMessage_def)
  have h: "confirmationMessage ?a =
                      Some (''Your appointment has been confirmed for ''
                            @ interp (body_timeSlot req) @ '' on ''
                            @ numeric_date (default_locale e) y m d)"
    if "body_appointmentDate req = Some s" and "parse_date_only s = Some (y, m, d)"
    for s y m d
    using g date_only_prints_its_day[OF that(2) assms(5,6)] that(1) by simp
  from f g h show ?thesis by blast
qed

text \<open>
  The scenario's request is an instance: the server runs in UTC, the date is
  \<open>2024-06-01\<close>, and the stored message ends in \<open>6/1/2024\<close>.
\<close>

theorem default_message_uses_default_format_witness:
  "\<exists>a'. appointment_findOne example_env
           (stored (confirm_appointment example_env [example_appointment] [example_doctor]
                      example_request)) ''a1'' ''d1'' = Inr (Some a')
        \<and> confirmationMessage a'
            = Some ''Your appointment has been confirmed for 10:00-10:30 on 6/1/2024''"
proof -
  have l: "truthy (session_doctorId example_request)"
    by (simp add: example_request_def truthy_def)
  have s: "save_rejects example_env
             (confirm_update example_env example_request example_appointment) = None"
    by (simp add: example_env_def)
  have n: "\<not> truthy (body_confirmationMessage example_request)"
    by (simp add: example_request_def truthy_def)
  have z: "0 \<le> timezone_offset example_env" "timezone_offset example_env < 1440"
    by (simp_all add: example_env_def)
  have r: "param_appointmentId example_request = ''a1''"
    "interp (session_doctorId example_request) = ''d1''"
    "interp (body_timeSlot example_request) = ''10:00-10:30''"
    "body_appointmentDate example_request = Some ''2024-06-01''"
    by (simp_all add: example_request_def interp_def)
  have p: "numeric_date (default_locale example_env) 2024 6 1 = ''6/1/2024''"
    by (simp add: numeric_date_def example_env_def year_str_def)
  from default_message_uses_default_format[OF l example_findOne s n z, of "[example_doctor]"]
  obtain a' where
    a: "appointment_findOne example_env
           (stored (confirm_appointment example_env [example_appointment] [example_doctor]
                      example_request)) ''a1'' ''d1'' = Inr (Some a')"
    and b: "\<forall>s y m d. body_appointmentDate example_request = Some s
                \<and> parse_date_only s = Some (y, m, d)
                \<longrightarrow> confirmationMessage a' =
                      Some (''Your appointment has been confirmed for ''
                            @ interp (body_timeSlot example_request) @ '' on ''
                            @ numeric_date (default_locale example_env) y m d)"
    unfolding r(1,2) by blast
  from b r(4) parse_example_date
  have "confirmationMessage a' =
          Some (''Your appointment has been confirmed for ''
                @ interp (body_timeSlot example_request) @ '' on ''
                @ numeric_date (default_locale example_env) 2024 6 1)"
    by blast
  then have "confirmationMessage a'
            = Some ''Your appointment has been confirmed for 10:00-10:30 on 6/1/2024''"
    by (simp add: r(3) p)
  with a show ?thesis by blast
qed

text \<open>
  With the long form the statement fails: in the scenario the long form of the date is
  \<open>Saturday, June 1, 2024\<close>, and the stored message does not contain it.
\<close>

theorem stored_message_is_not_long_form:
  "map confirmationMessage
     (stored (confirm_appointment example_env [example_appointment] [example_doctor] example_request))
     = [Some ''Your appointment has been confirmed for 10:00-10:30 on 6/1/2024'']
   \<and> toLocaleDateString_long example_env (new_Date example_env (body_appointmentDate example_request))
       = ''Saturday, June 1, 2024''
   \<and> \<not> includes_str ''Your appointment has been confirmed for 10:00-10:30 on 6/1/2024''
         ''Saturday, June 1, 2024''"
proof -
  have "confirmationMessage example_confirmed
          = Some ''Your appointment has been confirmed for 10:00-10:30 on 6/1/2024''"
    by (simp add: example_confirmed_def)
  moreover have "body_appointmentDate example_request = Some ''2024-06-01''"
    by (simp add: example_request_def)
  moreover have "\<not> includes_str ''Your appointment has been confirmed for 10:00-10:30 on 6/1/2024''
         ''Saturday, June 1, 2024''"
    by simp
  ultimately show ?thesis
    by (simp add: example_run example_long_date)
qed

text \<open>
  Claim C3: in the scenario, the subject of the rendered email contains the formatted
  date and its body contains \<open>Smith\<close> and \<open>Cardiology\<close>.

  The subject does. The body does not: \<open>getDoctorById\<close> reads the name \<open>mongoose\<close>,
  which \<open>routes/doctor.js\<close> never imports, so the lookup throws inside its own
  \<open>try\<close> and returns \<open>null\<close> for every doctor; the mail is rendered without the
  doctor's lines, in the HTML part and in the plain-text part.
\<close>

theorem scenario_mail_names_no_doctor:
  "getDoctorById [example_doctor] ''d1'' = None
   \<and> network (confirm_appointment example_env [example_appointment] [example_doctor]
                 example_request)
       = [Verify, SendMail (confirmation_mailOptions example_env example_confirmed None)]
   \<and> subject (confirmation_mailOptions example_env example_confirmed None)
       = ''Appointment Confirmed - Saturday, June 1, 2024''
   \<and> \<not> includes_str (html (confirmation_mailOptions example_env example_confirmed None)) ''Smith''
   \<and> \<not> includes_str (html (confirmation_mailOptions example_env example_confirmed None))
         ''Cardiology''
   \<and> text_body (confirmation_mailOptions example_env example_confirmed None)
       = Some (confirmation_text example_env example_confirmed None ''Saturday, June 1, 2024'')
   \<and> \<not> includes_str
         (confirmation_text example_env example_confirmed None ''Saturday, June 1, 2024'') ''Smith''
   \<and> \<not> includes_str
         (confirmation_text example_env example_confirmed None ''Saturday, June 1, 2024'')
         ''Cardiology''"
  by (simp add: getDoctorById_null example_run example_subject example_html example_text
      example_html_no_doctor example_text_no_doctor)

text \<open>
  Claim C4: when no stored appointment has both the requested id and the requesting
  doctor as its assigned doctor, the confirmation answers 404 with \<open>success: false\<close>
  and writes nothing: the collection is as it was, and nothing reaches the network.
  (The query itself is answered: a driver that throws is the 500 branch.)
\<close>

theorem not_owned_is_not_found:
  assumes "session_doctorId req = Some doctorId" and "doctorId \<noteq> []"
    and "findOne_rejects e (param_appointmentId req) doctorId = None"
    and "\<forall>a\<in>set appointments. \<not> (appt_id a = param_appointmentId req \<and> doctorid a = Some doctorId)"
  shows "confirm_appointment e appointments doctors req =
           \<lparr>response = Json 404 \<lparr>json_success = False, json_message = ''Appointment not found'',
                                 json_appointment = None, json_emailSent = None\<rparr>,
            stored = appointments, network = []\<rparr>"
proof -
  have "find (\<lambda>a. appt_id a = param_appointmentId req \<and> doctorid a = Some doctorId) appointments = None"
    using assms(4) by (simp add: find_None_iff_no_match)
  then show ?thesis using assms(1-3)
    by (simp add: confirm_appointment_def isDoctorLoggedIn_def truthy_def interp_def
        appointment_findOne_def)
qed

text \<open>
  The scenario's second request: doctor \<open>d2\<close> asks to confirm \<open>a1\<close>, which is
  assigned to \<open>d1\<close>.
\<close>

theorem not_owned_is_not_found_witness:
  "confirm_appointment example_env [example_appointment] [example_doctor]
     (example_request\<lparr>session_doctorId := Some ''d2''\<rparr>) =
     \<lparr>response = Json 404 \<lparr>json_success = False, json_message = ''Appointment not found'',
                           json_appointment = None, json_emailSent = None\<rparr>,
      stored = [example_appointment], network = []\<rparr>"
  by (rule not_owned_is_not_found[where doctorId = "''d2''"])
     (simp_all add: example_env_def example_appointment_def example_request_def)

text \<open>
  Claim C5: once the appointment is found and the write succeeds, the caller receives
  the success response, whatever the doctor lookup and the mail relay do (the
  environment \<open>e\<close> and the doctor collection are arbitrary), and the stored appointment
  is the confirmed one.
\<close>

theorem confirmed_whatever_the_notification_does:
  assumes "truthy (session_doctorId req)"
    and "appointment_findOne e appointments (param_appointmentId req) (interp (session_doctorId req)) = Inr (Some found)"
    and "save_rejects e (confirm_update e req found) = None"
  shows "response (confirm_appointment e appointments doctors req) =
           Json 200
             \<lparr>json_success = True,
              json_message = ''Appointment confirmed successfully. Patient will be notified.'',
              json_appointment = Some (confirm_update e req found),
              json_emailSent = Some True\<rparr>
         \<and> status (confirm_update e req found) = Some ''confirmed''
         \<and> appointment_findOne e (stored (confirm_appointment e appointments doctors req))
              (param_appointmentId req) (interp (session_doctorId req))
             = Inr (Some (confirm_update e req found))"
  using assms findOne_after_write_back[OF assms(2)]
  by (simp add: confirm_appointment_found) (simp add: confirm_update_def)

text \<open>
  An instance: the relay refuses the login, the send returns an authentication
  failure, and the response is the success response all the same.
\<close>

theorem confirmed_whatever_the_notification_does_witness:
  "fst (sendAppointmentConfirmationEmail (example_env\<lparr>transporter_verify := Some auth_error\<rparr>)
          example_confirmed None)
     = Inr \<lparr>success = False, messageId = None,
             error = Some ''Email authentication failed. Please check your email configuration.'',
             details = Some ''Invalid login''\<rparr>
   \<and> response (confirm_appointment (example_env\<lparr>transporter_verify := Some auth_error\<rparr>)
                [example_appointment] [example_doctor] example_request) =
       Json 200
         \<lparr>json_success = True,
          json_message = ''Appointment confirmed successfully. Patient will be notified.'',
          json_appointment = Some example_confirmed,
          json_emailSent = Some True\<rparr>
   \<and> status example_confirmed = Some ''confirmed''
   \<and> appointment_findOne (example_env\<lparr>transporter_verify := Some auth_error\<rparr>)
        (stored (confirm_appointment (example_env\<lparr>transporter_verify := Some auth_error\<rparr>)
                   [example_appointment] [example_doctor] example_request))
        ''a1'' ''d1'' = Inr (Some example_confirmed)"
proof -
  let ?e = "example_env\<lparr>transporter_verify := Some auth_error\<rparr>"
  have u: "confirm_update ?e example_request example_appointment = example_confirmed"
    by (rule confirm_update_en_US_utc) (simp_all add: example_env_def)
  have l: "truthy (session_doctorId example_request)"
    by (simp add: example_request_def truthy_def)
  have f: "appointment_findOne ?e [example_appointment] (param_appointmentId example_request)
     (interp (session_doctorId example_request)) = Inr (Some example_appointment)"
    by (simp add: appointment_findOne_def example_env_def example_appointment_def
      example_request_def interp_def)
  have s: "save_rejects ?e (confirm_update ?e example_request example_appointment) = None"
    by (simp add: example_env_def)
  have r: "param_appointmentId example_request = ''a1''"
    "interp (session_doctorId example_request) = ''d1''"
    by (simp_all add: example_request_def interp_def)
  have v: "valid (validateEmailConfig ?e)"
    by (simp add: validateEmailConfig_def example_env_def truthy_def)
  have m: "fst (sendAppointmentConfirmationEmail ?e example_confirmed None)
     = Inr \<lparr>success = False, messageId = None,
             error = Some ''Email authentication failed. Please check your email configuration.'',
             details = Some ''Invalid login''\<rparr>"
    using v by (simp add: sendAppointmentConfirmationEmail_cases
        sendAppointmentConfirmationEmail_catch_def auth_error_def)
  show ?thesis
    using confirmed_whatever_the_notification_does[OF l f s, of "[example_doctor]"] m
    by (simp add: u r)
qed

text \<open>
  Claim C6: confirmation is not guarded to be one-way. For an appointment that is
  already confirmed and owned by the requester, another confirmation succeeds and
  overwrites the stored slot, date and message with the newly supplied values.
\<close>

theorem second_confirmation_overwrites:
  assumes "truthy (session_doctorId req)"
    and "appointment_findOne e appointments (param_appointmentId req) (interp (session_doctorId req)) = Inr (Some found)"
    and "status found = Some ''confirmed''"
    and "save_rejects e (confirm_update e req found) = None"
  shows "\<exists>a'. response (confirm_appointment e appointments doctors req) =
                 Json 200
                   \<lparr>json_success = True,
                    json_message = ''Appointment confirmed successfully. Patient will be notified.'',
                    json_appointment = Some a', json_emailSent = Some True\<rparr>
          \<and> appointment_findOne e (stored (confirm_appointment e appointments doctors req))
                (param_appointmentId req) (interp (session_doctorId req)) = Inr (Some a')
          \<and> status a' = Some ''confirmed''
          \<and> timeSlot a' = body_timeSlot req
          \<and> appointmentDate a' = body_appointmentDate req
          \<and> confirmationMessage a' =
                (if truthy (body_confirmationMessage req) then body_confirmationMessage req
                 else Some (''Your appointment has been confirmed for '' @ interp (body_timeSlot req)
                            @ '' on '' @ toLocaleDateString_default e (new_Date e (body_appointmentDate req))))"
proof -
  let ?a = "confirm_update e req found"
  have "response (confirm_appointment e appointments doctors req) =
                 Json 200
                   \<lparr>json_success = True,
                    json_message = ''Appointment confirmed successfully. Patient will be notified.'',
                    json_appointment = Some ?a, json_emailSent = Some True\<rparr>"
    using assms by (simp add: confirm_appointment_found)
  moreover have "appointment_findOne e (stored (confirm_appointment e appointments doctors req))
                (param_appointmentId req) (interp (session_doctorId req)) = Inr (Some ?a)"
    using assms findOne_after_write_back[OF assms(2)] by (simp add: confirm_appointment_found)
  moreover have "status ?a = Some ''confirmed''" "timeSlot ?a = body_timeSlot req"
    "appointmentDate ?a = body_appointmentDate req"
    "confirmationMessage ?a =
                (if truthy (body_confirmationMessage req) then body_confirmationMessage req
                 else Some (''Your appointment has been confirmed for '' @ interp (body_timeSlot req)
                            @ '' on '' @ toLocaleDateString_default e (new_Date e (body_appointmentDate req))))"
    by (simp_all add: confirm_update_def default_confirmationMessage_def)
  ultimately show ?thesis by blast
qed

text \<open>
  An instance: the confirmed appointment of the scenario is confirmed again for
  \<open>11:00-11:30\<close> on \<open>2024-06-02\<close>.
\<close>

theorem second_confirmation_overwrites_witness:
  "\<exists>a'. response (confirm_appointment example_env [example_confirmed] [example_doctor]
                    example_second_request) =
           Json 200
             \<lparr>json_success = True,
              json_message = ''Appointment confirmed successfully. Patient will be notified.'',
              json_appointment = Some a', json_emailSent = Some True\<rparr>
        \<and> appointment_findOne example_env
             (stored (confirm_appointment example_env [example_confirmed] [example_doctor]
                        example_second_request)) ''a1'' ''d1'' = Inr (Some a')
        \<and> status a' = Some ''confirmed''
        \<and> timeSlot a' = Some ''11:00-11:30''
        \<and> appointmentDate a' = Some ''2024-06-02''
        \<and> confirmationMessage a' = Some ''Moved to the later slot''"
proof -
  have l: "truthy (session_doctorId example_second_request)"
    by (simp add: example_second_request_def truthy_def)
  have f: "appointment_findOne example_env [example_confirmed]
     (param_appointmentId example_second_request)
     (interp (session_doctorId example_second_request)) = Inr (Some example_confirmed)"
    by (simp add: appointment_findOne_def example_env_def example_confirmed_def
      example_second_request_def interp_def)
  have c: "status example_confirmed = Some ''confirmed''"
    by (simp add: example_confirmed_def)
  have s: "save_rejects example_env
             (confirm_update example_env example_second_request example_confirmed) = None"
    by (simp add: example_env_def)
  have r: "param_appointmentId example_second_request = ''a1''"
    "interp (session_doctorId example_second_request) = ''d1''"
    "body_timeSlot example_second_request = Some ''11:00-11:30''"
    "body_appointmentDate example_second_request = Some ''2024-06-02''"
    "body_confirmationMessage example_second_request = Some ''Moved to the later slot''"
    by (simp_all add: example_second_request_def interp_def)
  show ?thesis
    using second_confirmation_overwrites[OF l f c s, of "[example_doctor]"]
    by (simp add: r truthy_def)
qed

text \<open>
  Claim C7, as amended: for an appointment with no patient email (absent or empty) the
  send never succeeds and never calls \<open>sendMail\<close>. Its error is
  \<open>Patient email not found\<close> when the configuration is valid and the connectivity
  check passes: the recipient is looked at only after both, so a missing variable or a
  failed check is reported instead. The confirmation still answers with the success
  response once the write succeeded.
\<close>

theorem no_recipient_no_delivery:
  assumes "\<not> truthy (patientEmail a)"
  shows "(\<exists>r net. sendAppointmentConfirmationEmail e a doctorDetails = (Inr r, net)
            \<and> \<not> success r \<and> (\<forall>m. SendMail m \<notin> set net)
            \<and> (valid (validateEmailConfig e) \<and> transporter_verify e = None
                 \<longrightarrow> error r = Some ''Patient email not found'' \<and> net = [Verify]))
       \<and> (truthy (session_doctorId req)
           \<and> appointment_findOne e appointments (param_appointmentId req)
                (interp (session_doctorId req)) = Inr (Some a)
           \<and> save_rejects e (confirm_update e req a) = None
           \<longrightarrow> response (confirm_appointment e appointments doctors req) =
                 Json 200
                   \<lparr>json_success = True,
                    json_message = ''Appointment confirmed successfully. Patient will be notified.'',
                    json_appointment = Some (confirm_update e req a),
                    json_emailSent = Some True\<rparr>
               \<and> (\<forall>m. SendMail m \<notin> set (network (confirm_appointment e appointments doctors req))))"
proof (intro conjI impI)
  show "\<exists>r net. sendAppointmentConfirmationEmail e a doctorDetails = (Inr r, net)
            \<and> \<not> success r \<and> (\<forall>m. SendMail m \<notin> set net)
            \<and> (valid (validateEmailConfig e) \<and> transporter_verify e = None
                 \<longrightarrow> error r = Some ''Patient email not found'' \<and> net = [Verify])"
    using assms
    by (simp add: sendAppointmentConfirmationEmail_cases confirmation_catch_fails
        split: option.splits)
next
  assume h: "truthy (session_doctorId req)
           \<and> appointment_findOne e appointments (param_appointmentId req)
                (interp (session_doctorId req)) = Inr (Some a)
           \<and> save_rejects e (confirm_update e req a) = None"
  then have c: "confirm_appointment e appointments doctors req =
     \<lparr>response =
        Json 200
          \<lparr>json_success = True,
           json_message = ''Appointment confirmed successfully. Patient will be notified.'',
           json_appointment = Some (confirm_update e req a),
           json_emailSent = Some True\<rparr>,
      stored = write_back (confirm_update e req a) appointments,
      network = snd (sendAppointmentConfirmationEmail e (confirm_update e req a) None)\<rparr>"
    by (simp add: confirm_appointment_found)
  show "response (confirm_appointment e appointments doctors req) =
                 Json 200
                   \<lparr>json_success = True,
                    json_message = ''Appointment confirmed successfully. Patient will be notified.'',
                    json_appointment = Some (confirm_update e req a),
                    json_emailSent = Some True\<rparr>"
    by (simp add: c)
  have "\<not> truthy (patientEmail (confirm_update e req a))"
    using assms by (simp add: confirm_update_patientEmail)
  then show "\<forall>m. SendMail m \<notin> set (network (confirm_appointment e appointments doctors req))"
    by (simp add: c no_SendMail_without_recipient)
qed

text \<open>
  An instance: the scenario's appointment without a patient email.
\<close>

theorem no_recipient_no_delivery_witness:
  "(\<exists>r net. sendAppointmentConfirmationEmail example_env
               (example_confirmed\<lparr>patientEmail := None\<rparr>) None = (Inr r, net)
        \<and> \<not> success r \<and> (\<forall>m. SendMail m \<notin> set net)
        \<and> error r = Some ''Patient email not found'' \<and> net = [Verify])
   \<and> response (confirm_appointment example_env [example_appointment\<lparr>patientEmail := None\<rparr>]
                 [example_doctor] example_request) =
       Json 200
         \<lparr>json_success = True,
          json_message = ''Appointment confirmed successfully. Patient will be notified.'',
          json_appointment = Some (example_confirmed\<lparr>patientEmail := None\<rparr>),
          json_emailSent = Some True\<rparr>
   \<and> (\<forall>m. SendMail m \<notin> set (network (confirm_appointment example_env
                [example_appointment\<lparr>patientEmail := None\<rparr>] [example_doctor] example_request)))"
proof -
  let ?a = "example_appointment\<lparr>patientEmail := None\<rparr>"
  have n: "\<not> truthy (patientEmail ?a)" by (simp add: truthy_def)
  have n': "\<not> truthy (patientEmail (example_confirmed\<lparr>patientEmail := None\<rparr>))"
    by (simp add: truthy_def)
  have v: "valid (validateEmailConfig example_env)" "transporter_verify example_env = None"
    by (simp_all add: validateEmailConfig_def example_env_def truthy_def)
  have l: "truthy (session_doctorId example_request)"
    by (simp add: example_request_def truthy_def)
  have f: "appointment_findOne example_env [?a] (param_appointmentId example_request)
     (interp (session_doctorId example_request)) = Inr (Some ?a)"
    by (simp add: appointment_findOne_def example_env_def example_appointment_def
      example_request_def interp_def)
  have s: "save_rejects example_env (confirm_update example_env example_request ?a) = None"
    by (simp add: example_env_def)
  have u: "confirm_update example_env example_request ?a
             = example_confirmed\<lparr>patientEmail := None\<rparr>"
    using example_confirm_update
    by (simp add: confirm_update_def example_appointment_def example_confirmed_def)
  show ?thesis
    using no_recipient_no_delivery[OF n', of example_env None example_request "[]" "[]"]
      no_recipient_no_delivery[OF n, of example_env None example_request "[?a]" "[example_doctor]"]
      v l f s
    by (simp add: u)
qed

text \<open>
  As stated, with the missing-recipient error for every such appointment, the
  statement fails: when \<open>EMAIL_USER\<close> is unset too, the error names that variable.
\<close>

theorem missing_recipient_is_not_always_reported:
  "\<not> truthy (patientEmail (example_appointment\<lparr>patientEmail := None\<rparr>))
   \<and> fst (sendAppointmentConfirmationEmail (example_env\<lparr>EMAIL_USER := None\<rparr>)
            (example_appointment\<lparr>patientEmail := None\<rparr>) None)
       = Inr \<lparr>success = False, messageId = None,
               error = Some ''EMAIL_USER is not set in environment variables'', details = None\<rparr>
   \<and> fst (sendAppointmentConfirmationEmail (example_env\<lparr>EMAIL_USER := None\<rparr>)
            (example_appointment\<lparr>patientEmail := None\<rparr>) None)
       \<noteq> Inr \<lparr>success = False, messageId = None,
               error = Some ''Patient email not found'', details = None\<rparr>"
  by (simp add: sendAppointmentConfirmationEmail_cases missing_user_invalid truthy_def)

text \<open>
  Claim C8: when \<open>EMAIL_USER\<close> or \<open>EMAIL_PASS\<close> is absent from the environment,
  both send functions return a failure whose error names a variable that is not set (the
  first of the two that is absent or empty), and nothing reaches the network: no
  \<open>verify\<close>, no \<open>sendMail\<close>.
\<close>

theorem missing_configuration_fails_before_network:
  assumes "EMAIL_USER e = None \<or> EMAIL_PASS e = None"
  shows "sendAppointmentConfirmationEmail e a doctorDetails =
           (Inr \<lparr>success = False, messageId = None,
                  error = Some (if \<not> truthy (EMAIL_USER e)
                                then ''EMAIL_USER is not set in environment variables''
                                else ''EMAIL_PASS is not set in environment variables''),
                  details = None\<rparr>, [])
       \<and> sendOTPEmail e email otp =
           (Inr \<lparr>success = False, messageId = None,
                  error = Some (if \<not> truthy (EMAIL_USER e)
                                then ''EMAIL_USER is not set in environment variables''
                                else ''EMAIL_PASS is not set in environment variables''),
                  details = None\<rparr>, [])"
proof -
  from assms have "\<not> valid (validateEmailConfig e)"
    by (auto simp: validateEmailConfig_def truthy_def)
  moreover have "config_error (validateEmailConfig e) =
      Some (if \<not> truthy (EMAIL_USER e)
                                then ''EMAIL_USER is not set in environment variables''
                                else ''EMAIL_PASS is not set in environment variables'')"
    using assms by (auto simp: validateEmailConfig_def truthy_def)
  ultimately show ?thesis
    by (simp add: sendAppointmentConfirmationEmail_cases sendOTPEmail_cases)
qed

text \<open>
  An instance: \<open>EMAIL_PASS\<close> is absent.
\<close>

theorem missing_configuration_fails_before_network_witness:
  "sendAppointmentConfirmationEmail (example_env\<lparr>EMAIL_PASS := None\<rparr>) example_confirmed
       (Some example_doctor) =
     (Inr \<lparr>success = False, messageId = None,
            error = Some ''EMAIL_PASS is not set in environment variables'',
            details = None\<rparr>, [])
   \<and> sendOTPEmail (example_env\<lparr>EMAIL_PASS := None\<rparr>) ''p@x.com'' ''493817'' =
     (Inr \<lparr>success = False, messageId = None,
            error = Some ''EMAIL_PASS is not set in environment variables'',
            details = None\<rparr>, [])"
proof -
  have h: "EMAIL_USER (example_env\<lparr>EMAIL_PASS := None\<rparr>) = None
           \<or> EMAIL_PASS (example_env\<lparr>EMAIL_PASS := None\<rparr>) = None"
    by simp
  have t: "truthy (EMAIL_USER (example_env\<lparr>EMAIL_PASS := None\<rparr>))"
    by (simp add: example_env_def truthy_def)
  show ?thesis
    using missing_configuration_fails_before_network[OF h, of example_confirmed
        "Some example_doctor" "''p@x.com''" "''493817''"] t
    by simp
qed

text \<open>
  Claim C9: a failed delivery is classified. The connectivity check comes first; when
  it or the send rejects with an error, the result is a failure whose error is the
  authentication text for the code \<open>EAUTH\<close>, the connection text for
  \<open>ECONNECTION\<close> and \<open>ETIMEDOUT\<close>, and otherwise the error's own message (a fixed
  text when it has none); \<open>details\<close> always carries the error's own message.
\<close>

theorem delivery_failure_is_classified:
  assumes "valid (validateEmailConfig e)"
    and "transporter_verify e = Some err
         \<or> (transporter_verify e = None \<and> truthy (patientEmail a)
            \<and> transporter_sendMail e (confirmation_mailOptions e a doctorDetails) = Inl err)"
  shows "fst (sendAppointmentConfirmationEmail e a doctorDetails) =
           Inr \<lparr>success = False, messageId = None,
                 error = Some
                   (if err_code err = Some ''EAUTH''
                    then ''Email authentication failed. Please check your email configuration.''
                    else if err_code err = Some ''ECONNECTION'' \<or> err_code err = Some ''ETIMEDOUT''
                    then ''Connection error. Please check your internet connection.''
                    else if truthy (err_message err) then interp (err_message err)
                    else ''Failed to send appointment confirmation email.''),
                 details = err_message err\<rparr>
       \<and> snd (sendAppointmentConfirmationEmail e a doctorDetails) =
           (if transporter_verify e = Some err then [Verify]
            else [Verify, SendMail (confirmation_mailOptions e a doctorDetails)])"
  using assms
  by (auto simp: sendAppointmentConfirmationEmail_cases sendAppointmentConfirmationEmail_catch_def)

text \<open>
  An instance: the relay refuses the login during the connectivity check.
\<close>

theorem delivery_failure_is_classified_witness:
  "fst (sendAppointmentConfirmationEmail (example_env\<lparr>transporter_verify := Some auth_error\<rparr>)
          example_confirmed None) =
     Inr \<lparr>success = False, messageId = None,
           error = Some ''Email authentication failed. Please check your email configuration.'',
           details = Some ''Invalid login''\<rparr>
   \<and> snd (sendAppointmentConfirmationEmail (example_env\<lparr>transporter_verify := Some auth_error\<rparr>)
          example_confirmed None) = [Verify]"
proof -
  let ?e = "example_env\<lparr>transporter_verify := Some auth_error\<rparr>"
  have v: "valid (validateEmailConfig ?e)"
    by (simp add: validateEmailConfig_def example_env_def truthy_def)
  have h: "transporter_verify ?e = Some auth_error
         \<or> (transporter_verify ?e = None \<and> truthy (patientEmail example_confirmed)
            \<and> transporter_sendMail ?e (confirmation_mailOptions ?e example_confirmed None)
                = Inl auth_error)"
    by simp
  show ?thesis
    using delivery_failure_is_classified[OF v h]
    by (simp add: auth_error_def)
qed

text \<open>
  Claim C10: \<open>sendOTPEmail\<close> and \<open>sendAppointmentConfirmationEmail\<close> never
  reject: for every environment and every input they return a result object. The result
  has \<open>success: true\<close> exactly when the configuration is valid, the connectivity check
  passes, the recipient is there (for the confirmation mail) and the relay accepts the
  mail, and then it carries the message id of that send; every other result has
  \<open>success: false\<close> and a non-empty error message.
\<close>

theorem send_functions_return_results:
  "(\<exists>r. fst (sendOTPEmail e email otp) = Inr r
        \<and> success r = (valid (validateEmailConfig e) \<and> transporter_verify e = None
                       \<and> (\<exists>mid. transporter_sendMail e (otp_mailOptions e email otp) = Inr mid))
        \<and> (if success r
            then \<exists>mid. transporter_sendMail e (otp_mailOptions e email otp) = Inr mid
                       \<and> messageId r = Some mid
            else truthy (error r)))
   \<and> (\<exists>r. fst (sendAppointmentConfirmationEmail e a doctorDetails) = Inr r
        \<and> success r = (valid (validateEmailConfig e) \<and> transporter_verify e = None
                       \<and> truthy (patientEmail a)
                       \<and> (\<exists>mid. transporter_sendMail e (confirmation_mailOptions e a doctorDetails)
                                   = Inr mid))
        \<and> (if success r
            then \<exists>mid. transporter_sendMail e (confirmation_mailOptions e a doctorDetails) = Inr mid
                       \<and> messageId r = Some mid
            else truthy (error r)))"
  using sum_case_ex[OF otp_settles, of e email otp]
    sum_case_ex[OF confirmation_settles, of e a doctorDetails] by blast

text \<open>
  Two instances: an OTP mail the relay accepts, and a confirmation mail whose
  connectivity check fails.
\<close>

theorem send_functions_return_results_witness:
  "(\<exists>r. fst (sendOTPEmail example_env ''p@x.com'' ''493817'') = Inr r \<and> success r
        \<and> messageId r = Some ''<message-1@example.com>'')
   \<and> (\<exists>r. fst (sendAppointmentConfirmationEmail
                  (example_env\<lparr>transporter_verify := Some auth_error\<rparr>) example_confirmed None)
              = Inr r \<and> \<not> success r \<and> truthy (error r))"
proof -
  let ?e = "example_env\<lparr>transporter_verify := Some auth_error\<rparr>"
  have v: "valid (validateEmailConfig example_env)" "valid (validateEmailConfig ?e)"
    "transporter_verify example_env = None"
    "transporter_sendMail example_env (otp_mailOptions example_env ''p@x.com'' ''493817'')
       = Inr ''<message-1@example.com>''"
    by (simp_all add: validateEmailConfig_def example_env_def truthy_def)
  have a: "fst (sendOTPEmail example_env ''p@x.com'' ''493817'')
             = Inr \<lparr>success = True, messageId = Some ''<message-1@example.com>'', error = None,
                     details = None\<rparr>"
    by (simp add: sendOTPEmail_cases v)
  have b: "\<not> success (sendAppointmentConfirmationEmail_catch auth_error)"
    by (simp add: confirmation_catch_fails)
  have c: "fst (sendAppointmentConfirmationEmail ?e example_confirmed None)
             = Inr (sendAppointmentConfirmationEmail_catch auth_error)"
    by (simp add: sendAppointmentConfirmationEmail_cases v)
  show ?thesis
    using send_functions_return_results[of example_env "''p@x.com''" "''493817''"
        example_confirmed None]
      send_functions_return_results[of ?e "''p@x.com''" "''493817''" example_confirmed None]
      a b c
    by simp
qed

end
